theory Spec2Isabelle
  imports Complex_Main "HOL-Library.Log_Nat"
begin

section \<open>Persisted schema (prisma/schema.prisma)\<close>

text \<open>
  Each Prisma model is a record and each table a list of rows in insertion order. A record
  field whose name is already taken (by HOL or by another record) carries a suffix naming
  its model. Timestamps are integers (milliseconds). The records hold the columns that the
  operations below read or write; the remaining columns of User and Company (image,
  emailVerified, onBoardingCompleted, userType, the timestamps of Company) are inert here.
\<close>

datatype JobPostStatus = DRAFT | ACTIVE | EXPIRE

record User =
  id_us :: string
  name_us :: "string option"
  email :: "string option"
  stripeCustomerId :: "string option"

record Company =
  id_co :: string
  name_co :: string
  location_co :: string
  about_co :: string
  logo_co :: string
  website :: string
  xAccount :: "string option"
  userId_co :: string

record JobPost =
  id_jp :: string
  jobTitle :: string
  employmentType :: string
  location :: string
  salaryFrom :: int
  salaryTo :: int
  jobDescription :: string
  listingDuration :: int
  benefits :: "string list"
  status :: JobPostStatus
  createdAt :: int
  updatedAt :: int
  companyId :: string

record SavedJobPost =
  id_sv :: string
  jobPostId :: string
  userId :: string
  createdAt_sv :: int
  updatedAt_sv :: int

text \<open>Messages handed to the background scheduler (\<open>inngest.send\<close>). \<open>job/created\<close> carries
  the job id and \<open>expirationDays\<close>, the number taken from the validated form.\<close>

datatype inngest_event =
  JobCreated string rat
| JobCancelExpiration string

text \<open>A checkout session requested from the payment processor by \<open>createJob\<close>:
  customer, unit amount in cents, tier description and the jobId metadata.\<close>

record checkout_request =
  customer_rq :: string
  unit_amount :: int
  description_rq :: string
  metadata_jobId_rq :: string

text \<open>
  The state all operations act on: the four tables, and the messages sent so far to the
  scheduler, the payment processor and the page cache (\<open>revalidatePath\<close>).
\<close>

record world =
  users :: "User list"
  companies :: "Company list"
  jobPosts :: "JobPost list"
  savedJobPosts :: "SavedJobPost list"
  inngest_sent :: "inngest_event list"
  checkouts :: "checkout_request list"
  revalidated :: "string list"

text \<open>Errors that the modelled code throws, or that the ORM raises into it.\<close>

datatype error =
  Forbidden
| ZodError
| InvalidListingDuration
| RecordNotFound
| UniqueConstraintFailed "string list"
| ForeignKeyConstraintFailed
| InconsistentQueryResult
| PrismaValidationError
| ValueOutOfRange

section \<open>JavaScript numbers\<close>

text \<open>
  A finite JavaScript number is a rational; \<open>NaN\<close> and the infinities are kept apart where
  they can arise. Arithmetic rounds its exact result to the nearest double (53 significant
  bits, ties to the even neighbour). \<open>round_double\<close> is that rounding for the magnitudes
  that arise here (from \<open>2^-1100\<close> up; it has no subnormal and no overflow range): with
  \<open>e = exponent x = floor (log2 |x|)\<close>, computed as a bit length, the result is the multiple
  of \<open>2^(e - 52)\<close> nearest to \<open>x\<close>.
\<close>

definition round_half_even :: "rat \<Rightarrow> int" where
  "round_half_even q =
     (let f = \<lfloor>q\<rfloor>; d = q - of_int f
      in if d < 1 / 2 then f
         else if 1 / 2 < d then f + 1
         else if even f then f else f + 1)"

definition exponent :: "rat \<Rightarrow> int" where
  "exponent x = bitlen \<lfloor>\<bar>x\<bar> * 2 ^ 1100\<rfloor> - 1101"

definition round_double :: "rat \<Rightarrow> rat" where
  "round_double x =
     (if x = 0 then 0
      else
        let k = exponent x - 52
        in if 0 \<le> k then of_int (round_half_even (x / 2 ^ nat k)) * 2 ^ nat k
           else of_int (round_half_even (x * 2 ^ nat (- k))) / 2 ^ nat (- k))"

section \<open>Listing query (components/general/JobListings.tsx)\<close>

text \<open>The value of \<open>Math.ceil(totalCount / pageSize)\<close>: a JavaScript number. Division by
  zero gives \<open>Infinity\<close>, or \<open>NaN\<close> for \<open>0 / 0\<close>; \<open>Math.ceil\<close> keeps both. Counts are
  far below \<open>2^53\<close>, where the floating-point quotient of two integers rounds up to the
  exact ceiling.\<close>

datatype js_number = Num int | Infinity | NaN

definition Math_ceil_div :: "nat \<Rightarrow> nat \<Rightarrow> js_number" where
  "Math_ceil_div totalCount pageSize =
     (if pageSize = 0 then (if totalCount = 0 then NaN else Infinity)
      else Num \<lceil>real totalCount / real pageSize\<rceil>)"

text \<open>The \<open>where\<close> object built by \<open>getData\<close>: the status condition always, the
  \<open>employmentType: {in: jobTypes}\<close> condition when \<open>jobTypes.length > 0\<close>, the location
  condition when \<open>location\<close> is truthy (non-empty) and differs from \<open>"worldwide"\<close>.\<close>

definition getData_where :: "string list \<Rightarrow> string \<Rightarrow> JobPost \<Rightarrow> bool" where
  "getData_where jobTypes loc j =
     (status j = ACTIVE
      \<and> (if length jobTypes > 0 then employmentType j \<in> set jobTypes else True)
      \<and> (if loc \<noteq> [] \<and> loc \<noteq> ''worldwide'' then location j = loc else True))"

text \<open>\<open>orderBy: {createdAt: "desc"}\<close>. The database leaves the order of rows with equal
  \<open>createdAt\<close> open; the model keeps them in table order.\<close>

definition orderBy_createdAt_desc :: "JobPost list \<Rightarrow> JobPost list" where
  "orderBy_createdAt_desc js = sort_key (\<lambda>j. - createdAt j) js"

text \<open>The \<open>select\<close> of the page query: the job-card fields joined with four fields of the
  owning company. \<open>Company\<close> is a required relation backed by a foreign key, so the join
  always finds its row in a real store; the model yields \<open>None\<close> for a dangling
  \<open>companyId\<close>.\<close>

record CompanySummary =
  name_cs :: string
  logo_cs :: string
  location_cs :: string
  about_cs :: string

record JobSummary =
  jobTitle_s :: string
  id_s :: string
  salaryFrom_s :: int
  salaryTo_s :: int
  employmentType_s :: string
  location_s :: string
  createdAt_s :: int
  Company_s :: "CompanySummary option"

definition select_company :: "Company \<Rightarrow> CompanySummary" where
  "select_company c =
     \<lparr>name_cs = name_co c, logo_cs = logo_co c, location_cs = location_co c,
      about_cs = about_co c\<rparr>"

definition select_job :: "world \<Rightarrow> JobPost \<Rightarrow> JobSummary" where
  "select_job w j =
     \<lparr>jobTitle_s = jobTitle j, id_s = id_jp j, salaryFrom_s = salaryFrom j,
      salaryTo_s = salaryTo j, employmentType_s = employmentType j,
      location_s = location j, createdAt_s = createdAt j,
      Company_s = map_option select_company
                    (find (\<lambda>c. id_co c = companyId j) (companies w))\<rparr>"

record listing =
  jobs :: "JobSummary list"
  totalPages :: js_number

text \<open>\<open>const skip = (page - 1) * pageSize\<close>, in double precision.\<close>

definition getData_skip :: "rat \<Rightarrow> nat \<Rightarrow> rat" where
  "getData_skip page pageSize = round_double (round_double (page - 1) * of_nat pageSize)"

text \<open>
  \<open>getData\<close>. \<open>page\<close> is any finite number; \<open>pageSize\<close> is a row count (the one call site
  passes the literal 2), so it is a natural number. The ORM takes \<open>skip\<close> and \<open>take\<close> as
  64-bit integers: it rejects a \<open>skip\<close> that is negative, is not an integer or does not
  fit, and a \<open>take\<close> that does not fit, and \<open>Promise.all\<close> rethrows the error. The count query
  has its own \<open>where\<close>: the status alone.
\<close>

definition getData :: "world \<Rightarrow> rat \<Rightarrow> nat \<Rightarrow> string list \<Rightarrow> string \<Rightarrow> error + listing" where
  "getData w page pageSize jobTypes loc =
     (let skip = getData_skip page pageSize in
      if skip < 0 \<or> skip \<noteq> of_int \<lfloor>skip\<rfloor> \<or> 2 ^ 63 \<le> skip \<or> 2 ^ 63 \<le> pageSize
      then Inl PrismaValidationError
      else
        let data = map (select_job w)
                     (take pageSize (drop (nat \<lfloor>skip\<rfloor>)
                        (orderBy_createdAt_desc
                           (filter (getData_where jobTypes loc) (jobPosts w)))));
            totalCount = length (filter (\<lambda>j. status j = ACTIVE) (jobPosts w))
        in Inr \<lparr>jobs = data, totalPages = Math_ceil_div totalCount pageSize\<rparr>)"

section \<open>Listing view (the \<open>Home\<close> page and \<open>JobListingsContent\<close>)\<close>

text \<open>\<open>String.prototype.split(",")\<close>: cut at every comma, keeping empty pieces; the empty
  string gives the one-element array holding the empty string.\<close>

fun split_comma :: "string \<Rightarrow> string list" where
  "split_comma [] = [[]]"
| "split_comma (c # cs) =
     (if c = CHR '','' then [] # split_comma cs
      else (case split_comma cs of
              [] \<Rightarrow> [[c]]
            | p # ps \<Rightarrow> (c # p) # ps))"

record searchParams =
  page_q :: "string option"
  jobTypes_q :: "string option"
  location_q :: "string option"

text \<open>What \<open>JobListingsContent\<close> renders: the empty state, or the job cards with the
  pagination control (\<open>totalPages\<close>, \<open>currentPage\<close>).\<close>

datatype view = EmptyState | Listing "JobSummary list" js_number rat

definition JobListingsContent :: "world \<Rightarrow> rat \<Rightarrow> string list \<Rightarrow> string \<Rightarrow> error + view" where
  "JobListingsContent w currentPage jobTypes loc =
     (case getData w currentPage 2 jobTypes loc of
        Inl e \<Rightarrow> Inl e
      | Inr r \<Rightarrow>
          if length (jobs r) = 0 then Inr EmptyState
          else Inr (Listing (jobs r) (totalPages r) currentPage))"

text \<open>
  \<open>Home\<close>. JavaScript's \<open>Number\<close> conversion of a string is a parameter \<open>toNumber\<close>; it
  gives a finite double, an infinity or \<open>NaN\<close>. \<open>Number(page) || 1\<close> replaces \<open>NaN\<close> and
  \<open>0\<close> by 1, an absent parameter converts to \<open>NaN\<close>, and an infinity is kept: then the
  \<open>skip\<close> of the query is infinite too, and the ORM rejects it as it rejects every number
  that is not a 64-bit integer. \<open>jobTypes?.split(",") || []\<close> skips the split only for an
  absent parameter: every array, also \<open>[""]\<close>, is truthy. \<open>location || ""\<close>.
\<close>

datatype js_double = Finite rat | Infinite | NotANumber

definition Home_currentPage :: "(string \<Rightarrow> js_double) \<Rightarrow> string option \<Rightarrow> js_double" where
  "Home_currentPage toNumber page =
     (case page of
        None \<Rightarrow> Finite 1
      | Some s \<Rightarrow> (case toNumber s of
                     NotANumber \<Rightarrow> Finite 1
                   | Infinite \<Rightarrow> Infinite
                   | Finite n \<Rightarrow> if n = 0 then Finite 1 else Finite n))"

definition Home :: "(string \<Rightarrow> js_double) \<Rightarrow> world \<Rightarrow> searchParams \<Rightarrow> error + view" where
  "Home toNumber w q =
     (let currentPage = Home_currentPage toNumber (page_q q);
          jobTypesSplit = (case jobTypes_q q of None \<Rightarrow> [] | Some s \<Rightarrow> split_comma s);
          locationmod = (case location_q q of None \<Rightarrow> [] | Some s \<Rightarrow> s)
      in case currentPage of
           Finite n \<Rightarrow> JobListingsContent w n jobTypesSplit locationmod
         | _ \<Rightarrow> Inl PrismaValidationError)"

section \<open>Collaborators of the server actions\<close>

text \<open>
  What one request receives from outside the program: the database clock and the value of
  \<open>@default(uuid())\<close> for a row it inserts, the verdict of the bot-protection service
  (\<open>decision.isDenied()\<close>), the id of the customer that \<open>stripe.customers.create\<close> returns,
  the URL of the checkout session that \<open>stripe.checkout.sessions.create\<close> returns, and the
  URL test behind \<open>z.string().url()\<close>. The collaborators answer; an SDK call that fails
  would end the action at that call.
\<close>

record env =
  now :: int
  uuid :: string
  isDenied :: bool
  stripe_customer :: string
  stripe_session_url :: string
  isUrl :: "string \<Rightarrow> bool"

text \<open>The signed-in user of the session (\<open>session.user\<close>).\<close>

record session_user =
  id_su :: string
  email_su :: "string option"
  name_su :: "string option"

text \<open>How a server action ends: it returns, it redirects, or it throws.\<close>

datatype action_result = Returned | Redirected string | Thrown error

text \<open>One entry of \<open>jobListingPricing\<close>. The table itself (lib/jobListingPricing) is a
  parameter of \<open>createJob\<close>; \<open>days\<close> is compared with the form's number by \<open>===\<close>.\<close>

record pricing_tier =
  days :: rat
  price :: int
  description :: string

section \<open>Validation (\<open>jobSchema\<close>)\<close>

text \<open>The posting form. Its numbers are JavaScript numbers: \<open>z.number().min(1)\<close> asks
  neither for an integer nor for an upper bound. (\<open>NaN\<close> fails validation; an infinite
  value never reaches a row.)\<close>

record jobForm =
  jobTitle_f :: string
  employmentType_f :: string
  location_f :: string
  salaryFrom_f :: rat
  salaryTo_f :: rat
  jobDescription_f :: string
  listingDuration_f :: rat
  benefits_f :: "string list"
  companyName_f :: string
  companyLocation_f :: string
  companyAbout_f :: string
  companyLogo_f :: string
  companyWebsite_f :: string
  companyXAccount_f :: "string option"

definition jobSchema_ok :: "(string \<Rightarrow> bool) \<Rightarrow> jobForm \<Rightarrow> bool" where
  "jobSchema_ok url d =
     (2 \<le> length (jobTitle_f d)
      \<and> 1 \<le> length (employmentType_f d)
      \<and> 1 \<le> length (location_f d)
      \<and> 1 \<le> salaryFrom_f d
      \<and> 1 \<le> salaryTo_f d
      \<and> 1 \<le> length (jobDescription_f d)
      \<and> 1 \<le> listingDuration_f d
      \<and> list_all (\<lambda>b. 1 \<le> length b) (benefits_f d)
      \<and> 2 \<le> length (companyName_f d)
      \<and> 1 \<le> length (companyLocation_f d)
      \<and> 10 \<le> length (companyAbout_f d)
      \<and> 1 \<le> length (companyLogo_f d)
      \<and> url (companyWebsite_f d))"

text \<open>\<open>jobSchema.parse\<close>: the data, or \<open>None\<close> where it throws a \<open>ZodError\<close>.\<close>

definition jobSchema_parse :: "(string \<Rightarrow> bool) \<Rightarrow> jobForm \<Rightarrow> jobForm option" where
  "jobSchema_parse url d = (if jobSchema_ok url d then Some d else None)"

section \<open>Store operations used by the actions\<close>

text \<open>
  The columns \<open>salaryFrom\<close>, \<open>salaryTo\<close> and \<open>listingDuration\<close> are 32-bit \<open>Int\<close>s. Before a
  \<open>create\<close> or \<open>update\<close> touches the table, the ORM client rejects a number that is not an
  integer (validation error) and the query engine one that does not fit 32 bits (value out
  of range). \<open>Int_columns\<close> is that check on the numbers of a form; \<open>None\<close> means they
  pass.
\<close>

definition Int_columns :: "jobForm \<Rightarrow> error option" where
  "Int_columns v =
     (let xs = [salaryFrom_f v, salaryTo_f v, listingDuration_f v]
      in if list_ex (\<lambda>x. x \<noteq> of_int \<lfloor>x\<rfloor>) xs then Some PrismaValidationError
         else if list_ex (\<lambda>x. x < - (2 ^ 31) \<or> 2 ^ 31 \<le> x) xs then Some ValueOutOfRange
         else None)"

text \<open>The relation filter \<open>Company: {userId: uid}\<close> on a posting.\<close>

definition owned_by :: "world \<Rightarrow> string \<Rightarrow> JobPost \<Rightarrow> bool" where
  "owned_by w uid j =
     (case find (\<lambda>c. id_co c = companyId j) (companies w) of
        None \<Rightarrow> False
      | Some c \<Rightarrow> userId_co c = uid)"

text \<open>\<open>prisma.jobPost.update\<close>: no row matching \<open>where\<close> raises "record not found";
  otherwise the matching row takes the new data and its \<open>@updatedAt\<close> column the current
  time. Every \<open>where\<close> used contains the primary key, so at most one row matches.\<close>

definition jobPost_update ::
  "(JobPost \<Rightarrow> bool) \<Rightarrow> (JobPost \<Rightarrow> JobPost) \<Rightarrow> int \<Rightarrow> JobPost list \<Rightarrow> error + JobPost list" where
  "jobPost_update matches dat t rows =
     (case find matches rows of
        None \<Rightarrow> Inl RecordNotFound
      | Some _ \<Rightarrow> Inr (map (\<lambda>j. if matches j then (dat j)\<lparr>updatedAt := t\<rparr> else j) rows))"

text \<open>\<open>prisma.jobPost.delete\<close>: no matching row raises "record not found"; a matching row
  that a SavedJobPost still references is kept by the foreign key (the relation declares no
  \<open>onDelete\<close>, so deletion is restricted); otherwise the row is removed.\<close>

definition jobPost_delete :: "(JobPost \<Rightarrow> bool) \<Rightarrow> world \<Rightarrow> error + world" where
  "jobPost_delete matches w =
     (case find matches (jobPosts w) of
        None \<Rightarrow> Inl RecordNotFound
      | Some j \<Rightarrow>
          if list_ex (\<lambda>s. jobPostId s = id_jp j) (savedJobPosts w)
          then Inl ForeignKeyConstraintFailed
          else Inr (w\<lparr>jobPosts := filter (\<lambda>r. \<not> matches r) (jobPosts w)\<rparr>))"

text \<open>\<open>prisma.jobPost.create\<close>: numbers that do not pass as \<open>Int\<close> columns end the call;
  otherwise the row gets its id from \<open>uuid()\<close>, the default status DRAFT and both timestamps
  from the clock; a taken id violates the primary key, a \<open>companyId\<close> without a Company the
  foreign key.\<close>

definition new_JobPost :: "env \<Rightarrow> string \<Rightarrow> jobForm \<Rightarrow> JobPost" where
  "new_JobPost e cid v =
     \<lparr>id_jp = uuid e, jobTitle = jobTitle_f v,
      employmentType = employmentType_f v, location = location_f v,
      salaryFrom = \<lfloor>salaryFrom_f v\<rfloor>, salaryTo = \<lfloor>salaryTo_f v\<rfloor>,
      jobDescription = jobDescription_f v,
      listingDuration = \<lfloor>listingDuration_f v\<rfloor>, benefits = benefits_f v,
      status = DRAFT, createdAt = now e, updatedAt = now e, companyId = cid\<rparr>"

definition jobPost_create :: "env \<Rightarrow> string \<Rightarrow> jobForm \<Rightarrow> world \<Rightarrow> error + JobPost \<times> world" where
  "jobPost_create e cid v w =
     (let row = new_JobPost e cid v
      in case Int_columns v of
           Some err \<Rightarrow> Inl err
         | None \<Rightarrow>
         if list_ex (\<lambda>j. id_jp j = uuid e) (jobPosts w)
         then Inl (UniqueConstraintFailed [''id''])
         else if \<not> list_ex (\<lambda>c. id_co c = cid) (companies w)
         then Inl ForeignKeyConstraintFailed
         else Inr (row, w\<lparr>jobPosts := jobPosts w @ [row]\<rparr>))"

text \<open>\<open>prisma.user.update({where: {id}, data: {stripeCustomerId}})\<close>; the column is
  unique.\<close>

definition user_update_stripeCustomerId :: "string \<Rightarrow> string \<Rightarrow> world \<Rightarrow> error + world" where
  "user_update_stripeCustomerId uid cust w =
     (case find (\<lambda>u. id_us u = uid) (users w) of
        None \<Rightarrow> Inl RecordNotFound
      | Some _ \<Rightarrow>
          if list_ex (\<lambda>u. id_us u \<noteq> uid \<and> stripeCustomerId u = Some cust) (users w)
          then Inl (UniqueConstraintFailed [''stripeCustomerId''])
          else Inr (w\<lparr>users := map (\<lambda>u. if id_us u = uid
                                         then u\<lparr>stripeCustomerId := Some cust\<rparr> else u)
                                   (users w)\<rparr>))"

text \<open>\<open>prisma.company.findUnique({where: {userId}, select: {id, user: {stripeCustomerId}}})\<close>.
  \<open>user\<close> is a required relation; a Company whose user row is missing (which the foreign
  key excludes) makes the ORM raise an inconsistent-result error.\<close>

definition company_findUnique_userId ::
  "world \<Rightarrow> string \<Rightarrow> error + (string \<times> string option) option" where
  "company_findUnique_userId w uid =
     (case find (\<lambda>c. userId_co c = uid) (companies w) of
        None \<Rightarrow> Inr None
      | Some c \<Rightarrow>
          (case find (\<lambda>u. id_us u = userId_co c) (users w) of
             None \<Rightarrow> Inl InconsistentQueryResult
           | Some u \<Rightarrow> Inr (Some (id_co c, stripeCustomerId u))))"

text \<open>\<open>prisma.savedJobPost.create\<close>: primary key, then the unique pair
  \<open>(userId, jobPostId)\<close>, then the two foreign keys.\<close>

definition savedJobPost_create :: "env \<Rightarrow> string \<Rightarrow> string \<Rightarrow> world \<Rightarrow> error + world" where
  "savedJobPost_create e jid uid w =
     (let row = \<lparr>id_sv = uuid e, jobPostId = jid, userId = uid,
                 createdAt_sv = now e, updatedAt_sv = now e\<rparr>
      in if list_ex (\<lambda>s. id_sv s = uuid e) (savedJobPosts w)
         then Inl (UniqueConstraintFailed [''id''])
         else if list_ex (\<lambda>s. userId s = uid \<and> jobPostId s = jid) (savedJobPosts w)
         then Inl (UniqueConstraintFailed [''userId'', ''jobPostId''])
         else if \<not> list_ex (\<lambda>j. id_jp j = jid) (jobPosts w)
                 \<or> \<not> list_ex (\<lambda>u. id_us u = uid) (users w)
         then Inl ForeignKeyConstraintFailed
         else Inr (w\<lparr>savedJobPosts := savedJobPosts w @ [row]\<rparr>))"

text \<open>\<open>prisma.savedJobPost.delete({where: {id, userId}, select: {jobPostId}})\<close>.\<close>

definition savedJobPost_delete :: "string \<Rightarrow> string \<Rightarrow> world \<Rightarrow> error + string \<times> world" where
  "savedJobPost_delete sid uid w =
     (case find (\<lambda>s. id_sv s = sid \<and> userId s = uid) (savedJobPosts w) of
        None \<Rightarrow> Inl RecordNotFound
      | Some s \<Rightarrow>
          Inr (jobPostId s,
               w\<lparr>savedJobPosts :=
                    filter (\<lambda>r. \<not> (id_sv r = sid \<and> userId r = uid)) (savedJobPosts w)\<rparr>))"

section \<open>Server actions\<close>

text \<open>
  Every action starts with \<open>reqUser\<close>, which redirects to \<open>/login\<close> when there is no
  session. \<open>createJob\<close> has no bot-protection check; the other four throw \<open>Forbidden\<close> when
  the request is denied.
\<close>

text \<open>The part of \<open>createJob\<close> that provides the payment customer: the stored id when it is
  truthy, else a new customer whose id is written to the user row.\<close>

definition ensure_stripe_customer ::
  "env \<Rightarrow> session_user \<Rightarrow> string option \<Rightarrow> world \<Rightarrow> error + string \<times> world" where
  "ensure_stripe_customer e user stored w =
     (let create =
            (case user_update_stripeCustomerId (id_su user) (stripe_customer e) w of
               Inl err \<Rightarrow> Inl err
             | Inr w' \<Rightarrow> Inr (stripe_customer e, w'))
      in case stored of
           None \<Rightarrow> create
         | Some s \<Rightarrow> if s = [] then create else Inr (s, w))"

text \<open>The part of \<open>createJob\<close> after the customer is known: insert the posting, send the
  \<open>job/created\<close> event, look the pricing tier up, request the checkout session, redirect.\<close>

definition createJob_post ::
  "pricing_tier list \<Rightarrow> env \<Rightarrow> string \<Rightarrow> string \<Rightarrow> jobForm \<Rightarrow> world \<Rightarrow> action_result \<times> world" where
  "createJob_post jobListingPricing e cid stripeCustomerId' validatedData w =
     (case jobPost_create e cid validatedData w of
        Inl err \<Rightarrow> (Thrown err, w)
      | Inr (jobPost, w1) \<Rightarrow>
          let w2 = w1\<lparr>inngest_sent := inngest_sent w1 @
                         [JobCreated (id_jp jobPost) (listingDuration_f validatedData)]\<rparr>
          in (case find (\<lambda>tier. days tier = listingDuration_f validatedData) jobListingPricing of
                None \<Rightarrow> (Thrown InvalidListingDuration, w2)
              | Some pricingTier \<Rightarrow>
                  (Redirected (stripe_session_url e),
                   w2\<lparr>checkouts := checkouts w2 @
                         [\<lparr>customer_rq = stripeCustomerId',
                           unit_amount = price pricingTier * 100,
                           description_rq = description pricingTier,
                           metadata_jobId_rq = id_jp jobPost\<rparr>]\<rparr>)))"

definition createJob ::
  "pricing_tier list \<Rightarrow> env \<Rightarrow> session_user option \<Rightarrow> jobForm \<Rightarrow> world \<Rightarrow> action_result \<times> world" where
  "createJob jobListingPricing e session data w =
     (case session of
        None \<Rightarrow> (Redirected ''/login'', w)
      | Some user \<Rightarrow>
          (case jobSchema_parse (isUrl e) data of
             None \<Rightarrow> (Thrown ZodError, w)
           | Some validatedData \<Rightarrow>
               (case company_findUnique_userId w (id_su user) of
                  Inl err \<Rightarrow> (Thrown err, w)
                | Inr None \<Rightarrow> (Redirected ''/'', w)
                | Inr (Some (cid, stored)) \<Rightarrow>
                    if cid = [] then (Redirected ''/'', w)
                    else (case ensure_stripe_customer e user stored w of
                            Inl err \<Rightarrow> (Thrown err, w)
                          | Inr (stripeCustomerId', w1) \<Rightarrow>
                              createJob_post jobListingPricing e cid stripeCustomerId'
                                validatedData w1))))"

definition saveJobPost :: "env \<Rightarrow> session_user option \<Rightarrow> string \<Rightarrow> world \<Rightarrow> action_result \<times> world" where
  "saveJobPost e session jobId w =
     (case session of
        None \<Rightarrow> (Redirected ''/login'', w)
      | Some user \<Rightarrow>
          if isDenied e then (Thrown Forbidden, w)
          else (case savedJobPost_create e jobId (id_su user) w of
                  Inl err \<Rightarrow> (Thrown err, w)
                | Inr w1 \<Rightarrow>
                    (Returned, w1\<lparr>revalidated := revalidated w1 @ [''/job/'' @ jobId]\<rparr>)))"

definition unSaveJobPost :: "env \<Rightarrow> session_user option \<Rightarrow> string \<Rightarrow> world \<Rightarrow> action_result \<times> world" where
  "unSaveJobPost e session savedJobPostId w =
     (case session of
        None \<Rightarrow> (Redirected ''/login'', w)
      | Some user \<Rightarrow>
          if isDenied e then (Thrown Forbidden, w)
          else (case savedJobPost_delete savedJobPostId (id_su user) w of
                  Inl err \<Rightarrow> (Thrown err, w)
                | Inr (jid, w1) \<Rightarrow>
                    (Returned, w1\<lparr>revalidated := revalidated w1 @ [''/job/'' @ jid]\<rparr>)))"

text \<open>The \<open>data\<close> object of \<open>editJobPost\<close>: eight columns, all taken from the validated
  form. The update is issued with numbers that pass as \<open>Int\<close> columns only.\<close>

definition edit_data :: "jobForm \<Rightarrow> JobPost \<Rightarrow> JobPost" where
  "edit_data v j =
     j\<lparr>jobDescription := jobDescription_f v, jobTitle := jobTitle_f v,
       employmentType := employmentType_f v, location := location_f v,
       salaryFrom := \<lfloor>salaryFrom_f v\<rfloor>, salaryTo := \<lfloor>salaryTo_f v\<rfloor>,
       listingDuration := \<lfloor>listingDuration_f v\<rfloor>, benefits := benefits_f v\<rparr>"

definition editJobPost ::
  "env \<Rightarrow> session_user option \<Rightarrow> jobForm \<Rightarrow> string \<Rightarrow> world \<Rightarrow> action_result \<times> world" where
  "editJobPost e session data jobId w =
     (case session of
        None \<Rightarrow> (Redirected ''/login'', w)
      | Some user \<Rightarrow>
          if isDenied e then (Thrown Forbidden, w)
          else (case jobSchema_parse (isUrl e) data of
                  None \<Rightarrow> (Thrown ZodError, w)
                | Some validateData \<Rightarrow>
                    (case Int_columns validateData of
                       Some err \<Rightarrow> (Thrown err, w)
                     | None \<Rightarrow>
                         (case jobPost_update
                                 (\<lambda>j. id_jp j = jobId \<and> owned_by w (id_su user) j)
                                 (edit_data validateData) (now e) (jobPosts w) of
                            Inl err \<Rightarrow> (Thrown err, w)
                          | Inr rows \<Rightarrow>
                              (Redirected ''/my-jobs'', w\<lparr>jobPosts := rows\<rparr>)))))"

definition deleteJobPost :: "env \<Rightarrow> session_user option \<Rightarrow> string \<Rightarrow> world \<Rightarrow> action_result \<times> world" where
  "deleteJobPost e session jobId w =
     (case session of
        None \<Rightarrow> (Redirected ''/login'', w)
      | Some user \<Rightarrow>
          if isDenied e then (Thrown Forbidden, w)
          else (case jobPost_delete
                       (\<lambda>j. id_jp j = jobId \<and> owned_by w (id_su user) j) w of
                  Inl err \<Rightarrow> (Thrown err, w)
                | Inr w1 \<Rightarrow>
                    (Redirected ''/my-jobs'',
                     w1\<lparr>inngest_sent := inngest_sent w1 @ [JobCancelExpiration jobId]\<rparr>)))"

section \<open>Payment webhook (\<open>POST\<close>)\<close>

text \<open>
  The fields of the event that the handler reads: its type, and of the checkout session the
  customer reference and the \<open>jobId\<close> entry of the metadata, each of which may be absent.
\<close>

record checkout_session =
  customer :: "string option"
  metadata_jobId :: "string option"

record stripe_event =
  type_ev :: string
  object_ev :: checkout_session

record response =
  status_rs :: nat
  body_rs :: "string option"

text \<open>
  The handler receives the outcome of \<open>stripe.webhooks.constructEvent\<close>: the event, or
  \<open>None\<close> when the signature check throws. \<open>!jobId\<close> holds for an absent and for an empty
  value. \<open>findUnique\<close> rejects a \<open>null\<close> for the unique column with a validation error. The
  variable \<open>company\<close> is the user row found by the customer reference, so \<open>!company\<close> tests
  the user; for a user without a Company, \<open>company?.Company?.id\<close> is \<open>undefined\<close>, and the
  ORM drops an \<open>undefined\<close> condition from \<open>where\<close>. An uncaught error leaves the handler
  without a response of its own.
\<close>

definition POST :: "env \<Rightarrow> stripe_event option \<Rightarrow> world \<Rightarrow> (error + response) \<times> world" where
  "POST e constructed w =
     (case constructed of
        None \<Rightarrow> (Inr \<lparr>status_rs = 400, body_rs = Some ''Webhook Error''\<rparr>, w)
      | Some event \<Rightarrow>
          let session = object_ev event in
          if type_ev event = ''checkout.session.completed'' then
            (case metadata_jobId session of
               None \<Rightarrow> (Inr \<lparr>status_rs = 400, body_rs = Some ''no job id found''\<rparr>, w)
             | Some jobId \<Rightarrow>
                 if jobId = [] then
                   (Inr \<lparr>status_rs = 400, body_rs = Some ''no job id found''\<rparr>, w)
                 else
                   (case customer session of
                      None \<Rightarrow> (Inl PrismaValidationError, w)
                    | Some customerId \<Rightarrow>
                        (case find (\<lambda>u. stripeCustomerId u = Some customerId) (users w) of
                           None \<Rightarrow>
                             (Inr \<lparr>status_rs = 400,
                                   body_rs = Some ''no company found for the user''\<rparr>, w)
                         | Some company \<Rightarrow>
                             (case jobPost_update
                                     (\<lambda>j. id_jp j = jobId \<and>
                                          (case find (\<lambda>c. userId_co c = id_us company)
                                                  (companies w) of
                                             None \<Rightarrow> True
                                           | Some c \<Rightarrow> companyId j = id_co c))
                                     (\<lambda>j. j\<lparr>status := ACTIVE\<rparr>) (now e) (jobPosts w) of
                                Inl err \<Rightarrow> (Inl err, w)
                              | Inr rows \<Rightarrow>
                                  (Inr \<lparr>status_rs = 200, body_rs = None\<rparr>,
                                   w\<lparr>jobPosts := rows\<rparr>)))))
          else (Inr \<lparr>status_rs = 200, body_rs = None\<rparr>, w))"

section \<open>Integrity constraints of the schema\<close>

text \<open>
  What the database guarantees of every state of the four tables: the primary keys, the
  \<open>@unique\<close> columns (\<open>User.email\<close>, \<open>User.stripeCustomerId\<close>, \<open>Company.userId\<close>), the
  unique pair of SavedJobPost, and the foreign keys of the relations.
\<close>

definition consistent :: "world \<Rightarrow> bool" where
  "consistent w =
     (distinct (map id_us (users w))
      \<and> distinct (List.map_filter email (users w))
      \<and> distinct (List.map_filter stripeCustomerId (users w))
      \<and> distinct (map id_co (companies w))
      \<and> distinct (map userId_co (companies w))
      \<and> distinct (map id_jp (jobPosts w))
      \<and> distinct (map id_sv (savedJobPosts w))
      \<and> distinct (map (\<lambda>s. (userId s, jobPostId s)) (savedJobPosts w))
      \<and> list_all (\<lambda>c. userId_co c \<in> set (map id_us (users w))) (companies w)
      \<and> list_all (\<lambda>j. companyId j \<in> set (map id_co (companies w))) (jobPosts w)
      \<and> list_all (\<lambda>s. jobPostId s \<in> set (map id_jp (jobPosts w))
                     \<and> userId s \<in> set (map id_us (users w))) (savedJobPosts w))"

section \<open>Example data\<close>

text \<open>A small store used to run the operations on concrete inputs: an employer with three
  published postings and one draft, and a second employer without postings or payment
  customer.\<close>

definition ex_user :: User where
  "ex_user = \<lparr>id_us = ''u1'', name_us = Some ''Ada'', email = Some ''ada@acme.example'',
              stripeCustomerId = Some ''cus_1''\<rparr>"

definition ex_user2 :: User where
  "ex_user2 = \<lparr>id_us = ''u2'', name_us = None, email = Some ''bob@bolt.example'',
               stripeCustomerId = None\<rparr>"

definition ex_company :: Company where
  "ex_company =
     \<lparr>id_co = ''c1'', name_co = ''Acme'', location_co = ''Berlin'',
      about_co = ''We build things'', logo_co = ''logo.png'',
      website = ''https://acme.example'', xAccount = None, userId_co = ''u1''\<rparr>"

definition ex_company2 :: Company where
  "ex_company2 =
     \<lparr>id_co = ''c2'', name_co = ''Bolt'', location_co = ''Paris'',
      about_co = ''We fasten things'', logo_co = ''bolt.png'',
      website = ''https://bolt.example'', xAccount = None, userId_co = ''u2''\<rparr>"

definition ex_job :: "string \<Rightarrow> string \<Rightarrow> string \<Rightarrow> JobPostStatus \<Rightarrow> int \<Rightarrow> JobPost" where
  "ex_job i ty loc st t =
     \<lparr>id_jp = i, jobTitle = ''Engineer'', employmentType = ty, location = loc,
      salaryFrom = 1000, salaryTo = 2000, jobDescription = ''doc'', listingDuration = 30,
      benefits = [], status = st, createdAt = t, updatedAt = t, companyId = ''c1''\<rparr>"

definition ex_world :: world where
  "ex_world =
     \<lparr>users = [ex_user, ex_user2], companies = [ex_company, ex_company2],
      jobPosts = [ex_job ''j1'' ''full-time'' ''Berlin'' ACTIVE 10,
                  ex_job ''j2'' ''part-time'' ''Paris'' ACTIVE 20,
                  ex_job ''j3'' ''full-time'' ''Berlin'' ACTIVE 30,
                  ex_job ''j4'' ''contract'' ''Berlin'' DRAFT 40],
      savedJobPosts = [], inngest_sent = [], checkouts = [], revalidated = []\<rparr>"

text \<open>The same store with one more published posting, stored with an empty employment
  type.\<close>

definition ex_world_blank :: world where
  "ex_world_blank =
     ex_world\<lparr>jobPosts := jobPosts ex_world @ [ex_job ''j5'' [] ''Oslo'' ACTIVE 50]\<rparr>"

definition ex_env :: env where
  "ex_env =
     \<lparr>now = 100, uuid = ''j9'', isDenied = False, stripe_customer = ''cus_9'',
      stripe_session_url = ''https://checkout.example/s1'',
      isUrl = (\<lambda>s. take 8 s = ''https://'')\<rparr>"

definition ex_session :: "string \<Rightarrow> session_user" where
  "ex_session uid = \<lparr>id_su = uid, email_su = None, name_su = None\<rparr>"

definition ex_form :: "rat \<Rightarrow> jobForm" where
  "ex_form d =
     \<lparr>jobTitle_f = ''Tester'', employmentType_f = ''contract'', location_f = ''Rome'',
      salaryFrom_f = 10, salaryTo_f = 20, jobDescription_f = ''text'',
      listingDuration_f = d, benefits_f = [''401k''],
      companyName_f = ''Acme'', companyLocation_f = ''Berlin'',
      companyAbout_f = ''We build things'', companyLogo_f = ''logo.png'',
      companyWebsite_f = ''https://acme.example'', companyXAccount_f = None\<rparr>"

definition ex_pricing :: "pricing_tier list" where
  "ex_pricing =
     [\<lparr>days = 30, price = 99, description = ''Standard''\<rparr>,
      \<lparr>days = 60, price = 179, description = ''Extended''\<rparr>,
      \<lparr>days = 90, price = 249, description = ''Maximum''\<rparr>]"

definition ex_event :: "string option \<Rightarrow> string option \<Rightarrow> stripe_event" where
  "ex_event jid cust =
     \<lparr>type_ev = ''checkout.session.completed'',
      object_ev = \<lparr>customer = cust, metadata_jobId = jid\<rparr>\<rparr>"

section \<open>Properties of the listing query\<close>

subsection \<open>Double precision is exact on small integers\<close>

lemma round_half_even_of_int [simp]: "round_half_even (of_int z) = z"
  by (simp add: round_half_even_def Let_def)

lemma bitlen_shift:
  assumes "0 < m"
  shows "bitlen (m * 2 ^ c) = bitlen m + int c"
proof -
  have "nat (m * 2 ^ c) = nat m * 2 ^ c"
    using assms by (simp add: nat_mult_distrib nat_power_eq)
  moreover have "floorlog 2 (nat m * 2 ^ c) = floorlog 2 (nat m) + c"
    using assms by (intro floorlog_power) simp_all
  ultimately show ?thesis by (simp add: bitlen_def)
qed

lemma exponent_of_int:
  assumes "n \<noteq> 0"
  shows "exponent (of_int n) = bitlen \<bar>n\<bar> - 1"
proof -
  have "\<bar>rat_of_int n\<bar> * 2 ^ 1100 = rat_of_int (\<bar>n\<bar> * 2 ^ 1100)"
    by (simp only: of_int_mult of_int_power of_int_abs of_int_numeral)
  then have fl: "\<lfloor>\<bar>rat_of_int n\<bar> * 2 ^ 1100\<rfloor> = \<bar>n\<bar> * 2 ^ 1100"
    by (simp only: floor_of_int)
  have bs: "bitlen (\<bar>n\<bar> * 2 ^ 1100) = bitlen \<bar>n\<bar> + int 1100"
    using assms by (intro bitlen_shift) simp
  have "bitlen \<bar>n\<bar> + int 1100 - 1101 = bitlen \<bar>n\<bar> - 1" by simp
  then show ?thesis by (simp only: exponent_def fl bs)
qed

lemma round_double_of_int:
  assumes "\<bar>n\<bar> < 2 ^ 53"
  shows "round_double (of_int n) = of_int n"
proof (cases "n = 0")
  case True
  then show ?thesis by (simp add: round_double_def)
next
  case False
  have b2: "bitlen \<bar>n\<bar> \<le> 53" using assms by (simp add: bitlen_le_iff_power)
  define j where "j = nat (53 - bitlen \<bar>n\<bar>)"
  have k: "exponent (rat_of_int n) - 52 = - int j"
    using b2 by (simp add: exponent_of_int [OF False] j_def)
  have "rat_of_int n * 2 ^ j = rat_of_int (n * 2 ^ j)" by simp
  then have r: "round_half_even (rat_of_int n * 2 ^ j) = n * 2 ^ j"
    by (simp only: round_half_even_of_int)
  show ?thesis
  proof (cases "j = 0")
    case True
    then show ?thesis
      using False k by (simp add: round_double_def Let_def)
  next
    case False
    then have "\<not> 0 \<le> - int j" by simp
    then show ?thesis
      using \<open>n \<noteq> 0\<close> k r by (simp add: round_double_def Let_def)
  qed
qed

lemma getData_skip_of_int:
  assumes "1 \<le> p" and "(p - 1) * int s < 2 ^ 53"
  shows "getData_skip (of_int p) s = of_int ((p - 1) * int s)"
proof (cases "s = 0")
  case True
  then show ?thesis by (simp add: getData_skip_def round_double_def)
next
  case False
  then have "1 \<le> int s" by simp
  then have "(p - 1) * 1 \<le> (p - 1) * int s"
    using assms(1) by (intro mult_left_mono) simp_all
  then have small: "\<bar>p - 1\<bar> < 2 ^ 53" using assms by simp
  have "0 \<le> (p - 1) * int s" using assms(1) by simp
  then have prod: "\<bar>(p - 1) * int s\<bar> < 2 ^ 53" using assms(2) by simp
  have "round_double (rat_of_int p - 1) = rat_of_int (p - 1)"
    using round_double_of_int [OF small] by simp
  moreover have "rat_of_int (p - 1) * rat_of_nat s = rat_of_int ((p - 1) * int s)"
    by simp
  ultimately show ?thesis
    using round_double_of_int [OF prod] by (simp only: getData_skip_def)
qed

lemma round_half_even_div:
  assumes "0 < b"
  shows "round_half_even (of_int a / of_int b) =
           (if 2 * (a mod b) < b then a div b
            else if b < 2 * (a mod b) then a div b + 1
            else if even (a div b) then a div b else a div b + 1)"
proof -
  have f: "\<lfloor>rat_of_int a / rat_of_int b\<rfloor> = a div b"
    by (rule floor_divide_of_int_eq)
  have "rat_of_int a = rat_of_int (a div b) * rat_of_int b + rat_of_int (a mod b)"
    by (metis of_int_add of_int_mult div_mult_mod_eq)
  then have d: "rat_of_int a / rat_of_int b - rat_of_int (a div b) = rat_of_int (a mod b) / rat_of_int b"
    using assms by (simp add: field_simps)
  have lt: "rat_of_int (a mod b) / rat_of_int b < 1 / 2 \<longleftrightarrow> 2 * (a mod b) < b"
  proof -
    have "rat_of_int (a mod b) / rat_of_int b < 1 / 2 \<longleftrightarrow> rat_of_int (2 * (a mod b)) < rat_of_int b"
      using assms by (simp add: field_simps)
    then show ?thesis by (simp only: of_int_less_iff)
  qed
  have gt: "1 / 2 < rat_of_int (a mod b) / rat_of_int b \<longleftrightarrow> b < 2 * (a mod b)"
  proof -
    have "1 / 2 < rat_of_int (a mod b) / rat_of_int b \<longleftrightarrow> rat_of_int b < rat_of_int (2 * (a mod b))"
      using assms by (simp add: field_simps)
    then show ?thesis by (simp only: of_int_less_iff)
  qed
  show ?thesis
    by (simp only: round_half_even_def Let_def f d lt gt)
qed

lemma round_double_large:
  assumes "2 ^ (52 + k) \<le> n" and "n < 2 ^ (53 + k)"
  shows "round_double (of_int n) = of_int (round_half_even (of_int n / of_int (2 ^ k))) * 2 ^ k"
proof -
  have "(0::int) < 2 ^ (52 + k)" by simp
  with assms(1) have pos: "0 < n" by linarith
  have "bitlen n \<le> int (53 + k)"
    using assms(2) by (simp add: bitlen_le_iff_power nat_add_distrib)
  moreover have "int (53 + k) \<le> bitlen n"
    using assms(1) by (simp add: bitlen_ge_iff_power nat_add_distrib)
  ultimately have b: "bitlen n = 53 + int k" by simp
  have e: "exponent (rat_of_int n) - 52 = int k"
    using pos b by (simp add: exponent_of_int)
  show ?thesis
    using pos by (simp add: round_double_def e Let_def)
qed

lemma round_double_2_62_minus_1: "round_double (2 ^ 62 - 1) = 2 ^ 62"
proof -
  have "round_double (rat_of_int (2 ^ 62 - 1))
          = of_int (round_half_even (of_int (2 ^ 62 - 1) / of_int (2 ^ 9))) * 2 ^ 9"
    by (rule round_double_large) simp_all
  moreover have "round_half_even (rat_of_int (2 ^ 62 - 1) / rat_of_int (2 ^ 9)) = 2 ^ 53"
    by (subst round_half_even_div) simp_all
  ultimately show ?thesis by simp
qed

lemma round_double_2_63: "round_double (2 ^ 63) = 2 ^ 63"
proof -
  have "round_double (rat_of_int (2 ^ 63))
          = of_int (round_half_even (of_int (2 ^ 63) / of_int (2 ^ 11))) * 2 ^ 11"
    by (rule round_double_large) simp_all
  moreover have "round_half_even (rat_of_int (2 ^ 63) / rat_of_int (2 ^ 11)) = 2 ^ 52"
    by (subst round_half_even_div) simp_all
  ultimately show ?thesis by simp
qed

lemma getData_skip_huge: "getData_skip (2 ^ 62) 2 = 2 ^ 63"
  using round_double_2_62_minus_1 round_double_2_63 by (simp add: getData_skip_def)

subsection \<open>Auxiliary facts\<close>

lemma getData_Inr_iff:
  "getData w page pageSize jobTypes loc = Inr r \<longleftrightarrow>
     \<not> (getData_skip page pageSize < 0
        \<or> getData_skip page pageSize \<noteq> of_int \<lfloor>getData_skip page pageSize\<rfloor>
        \<or> 2 ^ 63 \<le> getData_skip page pageSize \<or> 2 ^ 63 \<le> pageSize) \<and>
     r = \<lparr>jobs = map (select_job w)
                  (take pageSize (drop (nat \<lfloor>getData_skip page pageSize\<rfloor>)
                     (orderBy_createdAt_desc
                        (filter (getData_where jobTypes loc) (jobPosts w))))),
          totalPages = Math_ceil_div (length (filter (\<lambda>j. status j = ACTIVE) (jobPosts w))) pageSize\<rparr>"
  by (auto simp add: getData_def Let_def)

lemma getData_ok:
  assumes "1 \<le> p" and "(p - 1) * int pageSize < 2 ^ 53" and "pageSize < 2 ^ 63"
    and "page = of_int p"
  shows "getData w page pageSize jobTypes loc =
     Inr \<lparr>jobs = map (select_job w)
                  (take pageSize (drop (nat ((p - 1) * int pageSize))
                     (orderBy_createdAt_desc
                        (filter (getData_where jobTypes loc) (jobPosts w))))),
          totalPages = Math_ceil_div (length (filter (\<lambda>j. status j = ACTIVE) (jobPosts w))) pageSize\<rparr>"
proof -
  have skip: "getData_skip page pageSize = of_int ((p - 1) * int pageSize)"
    using getData_skip_of_int [OF assms(1,2)] assms(4) by simp
  have "0 \<le> (p - 1) * int pageSize" using assms(1) by simp
  then have "0 \<le> rat_of_int ((p - 1) * int pageSize)" by (simp only: of_int_0_le_iff)
  moreover have "rat_of_int ((p - 1) * int pageSize) < 2 ^ 53"
    using assms(2) by (metis of_int_less_numeral_power_cancel_iff)
  moreover have "(2::rat) ^ 53 \<le> 2 ^ 63" by simp
  ultimately have "\<not> rat_of_int ((p - 1) * int pageSize) < 0"
      "\<not> 2 ^ 63 \<le> rat_of_int ((p - 1) * int pageSize)"
    by linarith+
  then show ?thesis
    using assms(3) by (simp only: getData_def Let_def skip floor_of_int) simp
qed

lemma set_orderBy [simp]: "set (orderBy_createdAt_desc js) = set js"
  by (simp add: orderBy_createdAt_desc_def)

lemma length_orderBy [simp]: "length (orderBy_createdAt_desc js) = length js"
  by (simp add: orderBy_createdAt_desc_def)

lemma sorted_orderBy:
  "sorted_wrt (\<lambda>a b. createdAt b \<le> createdAt a) (orderBy_createdAt_desc js)"
proof -
  have "sorted (map (\<lambda>j. - createdAt j) (sort_key (\<lambda>j. - createdAt j) js))"
    by (rule sorted_sort_key)
  then show ?thesis
    by (simp add: orderBy_createdAt_desc_def sorted_map)
qed

lemma page_rows_subset:
  "set (take n (drop k (orderBy_createdAt_desc (filter P js)))) \<subseteq> {j \<in> set js. P j}"
proof -
  have "set (take n (drop k (orderBy_createdAt_desc (filter P js))))
          \<subseteq> set (orderBy_createdAt_desc (filter P js))"
    by (meson set_take_subset set_drop_subset subset_trans)
  then show ?thesis by auto
qed

lemma sorted_page:
  "sorted_wrt (\<lambda>a b. createdAt_s b \<le> createdAt_s a)
     (map (select_job w) (take n (drop k (orderBy_createdAt_desc js))))"
proof -
  have "sorted_wrt (\<lambda>a b. createdAt b \<le> createdAt a) (take n (drop k (orderBy_createdAt_desc js)))"
    by (intro sorted_wrt_take sorted_wrt_drop sorted_orderBy)
  then show ?thesis
    by (simp add: sorted_wrt_map select_job_def)
qed

lemma ceil_pages_le:
  assumes "0 < s" and "\<lceil>real n / real s\<rceil> < page"
  shows "int n \<le> (page - 1) * int s"
proof -
  have "real n / real s \<le> real_of_int (page - 1)"
    using assms(2) by linarith
  then have "real n \<le> real_of_int (page - 1) * real s"
    using assms(1) by (simp add: pos_divide_le_eq)
  then have "real_of_int (int n) \<le> real_of_int ((page - 1) * int s)"
    by simp
  then show ?thesis by linarith
qed

lemma Math_ceil_div_pos:
  "0 < s \<Longrightarrow> Math_ceil_div n s = Num (- (- int n div int s))"
proof -
  assume "0 < s"
  have "\<lceil>real n / real s\<rceil> = \<lceil>real_of_int (int n) / real_of_int (int s)\<rceil>" by simp
  also have "\<dots> = - (- int n div int s)" by (rule ceiling_divide_eq_div)
  finally show ?thesis using \<open>0 < s\<close> by (simp add: Math_ceil_div_def)
qed

lemma length_filter_mono:
  "(\<And>x. P x \<Longrightarrow> Q x) \<Longrightarrow> length (filter P xs) \<le> length (filter Q xs)"
  by (induction xs) auto

lemmas ex_defs = ex_world_def ex_job_def ex_company_def ex_company2_def ex_user_def ex_user2_def

lemmas listing_eval = getData_where_def orderBy_createdAt_desc_def
  select_job_def select_company_def Math_ceil_div_pos

lemma getData_row_origin:
  assumes "getData w page pageSize jobTypes loc = Inr r" and "s \<in> set (jobs r)"
  shows "\<exists>j \<in> set (jobPosts w). s = select_job w j \<and> getData_where jobTypes loc j"
proof -
  let ?rows = "take pageSize (drop (nat \<lfloor>getData_skip page pageSize\<rfloor>)
                 (orderBy_createdAt_desc (filter (getData_where jobTypes loc) (jobPosts w))))"
  have "jobs r = map (select_job w) ?rows"
    using assms(1) by (simp add: getData_Inr_iff)
  with assms(2) obtain j where j: "j \<in> set ?rows" and s: "s = select_job w j"
    by auto
  from j page_rows_subset have "j \<in> set (jobPosts w)" and "getData_where jobTypes loc j"
    by blast+
  with s show ?thesis by blast
qed

lemma ex_page:
  assumes "1 \<le> p" and "(p - 1) * 2 < 2 ^ 53" and "page = of_int p"
  shows "getData w page 2 jobTypes loc =
     Inr \<lparr>jobs = map (select_job w)
                  (take 2 (drop (nat ((p - 1) * 2))
                     (orderBy_createdAt_desc
                        (filter (getData_where jobTypes loc) (jobPosts w))))),
          totalPages = Math_ceil_div (length (filter (\<lambda>j. status j = ACTIVE) (jobPosts w))) 2\<rparr>"
  using getData_ok [of p 2 page w jobTypes loc] assms by simp

lemma JobListingsContent_ok:
  assumes "1 \<le> p" and "(p - 1) * 2 < 2 ^ 53"
  shows "JobListingsContent w (of_int p) jobTypes loc =
           Inr (let rows = map (select_job w)
                             (take 2 (drop (nat ((p - 1) * 2))
                                (orderBy_createdAt_desc
                                   (filter (getData_where jobTypes loc) (jobPosts w)))))
                in if rows = [] then EmptyState
                   else Listing rows
                          (Math_ceil_div (length (filter (\<lambda>j. status j = ACTIVE) (jobPosts w))) 2)
                          (of_int p))"
  using ex_page [OF assms refl, of w jobTypes loc]
  by (simp add: JobListingsContent_def Let_def)

lemma getData_where_blank:
  "getData_where [[]] loc =
     (\<lambda>j. status j = ACTIVE \<and> employmentType j = []
           \<and> (loc = [] \<or> loc = ''worldwide'' \<or> location j = loc))"
  by (auto simp add: getData_where_def fun_eq_iff)

lemma filter_none: "\<forall>x \<in> set xs. \<not> P x \<Longrightarrow> filter P xs = []"
  by (induction xs) auto

subsection \<open>Page count\<close>

text \<open>
  C1. For every page size \<open>s > 0\<close> and whatever the employment-type and location filters
  are, whenever the listing query returns, \<open>totalPages\<close> is \<open>ceil(N / s)\<close> with \<open>N\<close> the
  number of all postings whose status is ACTIVE; and it does return for every page
  \<open>p \<ge> 1\<close> whose skip is in the exact range of double precision. Hence there are stores and
  filters for which \<open>totalPages\<close> exceeds the number of pages \<open>ceil(M / s)\<close> that hold
  filtered results, \<open>M\<close> being the number of postings matching the filters.
\<close>

theorem getData_totalPages_counts_all_active:
  assumes "0 < pageSize"
  shows "(\<forall>r. getData w page pageSize jobTypes loc = Inr r \<longrightarrow>
            totalPages r =
              Num \<lceil>real (length (filter (\<lambda>j. status j = ACTIVE) (jobPosts w))) / real pageSize\<rceil>)
       \<and> (1 \<le> p \<and> (p - 1) * int pageSize < 2 ^ 53 \<and> pageSize < 2 ^ 63 \<longrightarrow>
            (\<exists>r. getData w (of_int p) pageSize jobTypes loc = Inr r \<and>
               totalPages r =
                 Num \<lceil>real (length (filter (\<lambda>j. status j = ACTIVE) (jobPosts w))) / real pageSize\<rceil>)
            \<and> (\<exists>w' jobTypes' loc' r' n m.
                 getData w' (of_int p) pageSize jobTypes' loc' = Inr r' \<and> totalPages r' = Num n \<and>
                 Math_ceil_div (length (filter (getData_where jobTypes' loc') (jobPosts w')))
                   pageSize = Num m \<and> m < n))"
proof (intro conjI allI impI; (elim conjE)?)
  fix r assume "getData w page pageSize jobTypes loc = Inr r"
  then show "totalPages r =
              Num \<lceil>real (length (filter (\<lambda>j. status j = ACTIVE) (jobPosts w))) / real pageSize\<rceil>"
    using assms by (simp add: getData_Inr_iff Math_ceil_div_def)
next
  assume p: "1 \<le> p" "(p - 1) * int pageSize < 2 ^ 53" "pageSize < 2 ^ 63"
  show "\<exists>r. getData w (of_int p) pageSize jobTypes loc = Inr r \<and>
            totalPages r =
              Num \<lceil>real (length (filter (\<lambda>j. status j = ACTIVE) (jobPosts w))) / real pageSize\<rceil>"
    using assms by (simp add: getData_ok [OF p refl] Math_ceil_div_def)
next
  assume p: "1 \<le> p" "(p - 1) * int pageSize < 2 ^ 53" "pageSize < 2 ^ 63"
  let ?T = "[''internship'']"
  have active: "length (filter (\<lambda>j. status j = ACTIVE) (jobPosts ex_world)) = 3"
    by (simp add: ex_defs)
  have none: "filter (getData_where ?T []) (jobPosts ex_world) = []"
    by (simp add: ex_defs getData_where_def)
  have pos: "0 < \<lceil>real 3 / real pageSize\<rceil>"
    using assms(1) by simp
  have "getData ex_world (of_int p) pageSize ?T [] =
          Inr \<lparr>jobs = [], totalPages = Num \<lceil>real 3 / real pageSize\<rceil>\<rparr>"
    using assms by (simp add: getData_ok [OF p refl] none active Math_ceil_div_def)
  moreover have "Math_ceil_div (length (filter (getData_where ?T []) (jobPosts ex_world))) pageSize
                   = Num 0"
    using assms(1) by (simp add: none Math_ceil_div_def)
  ultimately show "\<exists>w' jobTypes' loc' r' n m.
            getData w' (of_int p) pageSize jobTypes' loc' = Inr r' \<and> totalPages r' = Num n \<and>
            Math_ceil_div (length (filter (getData_where jobTypes' loc') (jobPosts w'))) pageSize
              = Num m \<and> m < n"
    using pos by (metis listing.select_convs(2))
qed

theorem getData_totalPages_counts_all_active_witness:
  "(0::nat) < 2
   \<and> (\<exists>r. getData ex_world 1 2 [''part-time''] [] = Inr r \<and> length (jobs r) = 1
          \<and> totalPages r = Num 2)
   \<and> Math_ceil_div (length (filter (getData_where [''part-time''] []) (jobPosts ex_world))) 2
       = Num 1
   \<and> (\<exists>r. getData ex_world 2 2 [''part-time''] [] = Inr r \<and> jobs r = [])"
proof -
  have 1: "getData ex_world 1 2 [''part-time''] [] = Inr r \<Longrightarrow> totalPages r = Num 2" for r
    using getData_totalPages_counts_all_active [of 2 ex_world 1 "[''part-time'']" "[]"]
    by (simp add: ex_defs)
  have 2: "\<exists>r. getData ex_world 1 2 [''part-time''] [] = Inr r \<and> length (jobs r) = 1"
    by (simp add: ex_page [of 1] ex_defs listing_eval)
  have 3: "\<exists>r. getData ex_world 2 2 [''part-time''] [] = Inr r \<and> jobs r = []"
    by (simp add: ex_page [of 2] ex_defs listing_eval)
  have 4: "Math_ceil_div (length (filter (getData_where [''part-time''] []) (jobPosts ex_world))) 2
       = Num 1"
    by (simp add: ex_defs listing_eval)
  from 1 2 3 4 show ?thesis by auto
qed

subsection \<open>Filters\<close>

text \<open>
  C4. Every summary returned by the listing query is the projection of a stored posting
  whose status is ACTIVE; when the employment-type list is non-empty the posting's type is
  one of its members; when the location filter is neither empty nor \<open>"worldwide"\<close> the
  posting's location equals it; and when the location filter is empty or \<open>"worldwide"\<close>
  the page is cut from the postings selected by status and employment type alone.
\<close>

theorem getData_rows_satisfy_filters:
  assumes "getData w page pageSize jobTypes loc = Inr r"
  shows "(\<forall>s \<in> set (jobs r). \<exists>j \<in> set (jobPosts w).
            s = select_job w j \<and> status j = ACTIVE
            \<and> (jobTypes \<noteq> [] \<longrightarrow> employmentType j \<in> set jobTypes \<and> employmentType_s s \<in> set jobTypes)
            \<and> (loc \<noteq> [] \<and> loc \<noteq> ''worldwide'' \<longrightarrow> location j = loc \<and> location_s s = loc))
       \<and> (loc = [] \<or> loc = ''worldwide'' \<longrightarrow>
            jobs r = map (select_job w)
                       (take pageSize (drop (nat \<lfloor>getData_skip page pageSize\<rfloor>)
                          (orderBy_createdAt_desc
                             (filter (\<lambda>j. status j = ACTIVE \<and>
                                           (jobTypes = [] \<or> employmentType j \<in> set jobTypes))
                                (jobPosts w))))))"
proof (intro conjI ballI impI)
  let ?rows = "take pageSize (drop (nat \<lfloor>getData_skip page pageSize\<rfloor>)
                 (orderBy_createdAt_desc (filter (getData_where jobTypes loc) (jobPosts w))))"
  have jobs: "jobs r = map (select_job w) ?rows"
    using assms by (simp add: getData_Inr_iff)
  {
    fix s assume "s \<in> set (jobs r)"
    from getData_row_origin [OF assms this]
    obtain j where "j \<in> set (jobPosts w)" "s = select_job w j" "getData_where jobTypes loc j"
      by blast
    then show "\<exists>j \<in> set (jobPosts w).
            s = select_job w j \<and> status j = ACTIVE
            \<and> (jobTypes \<noteq> [] \<longrightarrow> employmentType j \<in> set jobTypes \<and> employmentType_s s \<in> set jobTypes)
            \<and> (loc \<noteq> [] \<and> loc \<noteq> ''worldwide'' \<longrightarrow> location j = loc \<and> location_s s = loc)"
      by (auto simp add: getData_where_def select_job_def)
  }
  assume "loc = [] \<or> loc = ''worldwide''"
  then have "getData_where jobTypes loc =
               (\<lambda>j. status j = ACTIVE \<and> (jobTypes = [] \<or> employmentType j \<in> set jobTypes))"
    by (auto simp add: getData_where_def fun_eq_iff)
  then show "jobs r = map (select_job w)
                       (take pageSize (drop (nat \<lfloor>getData_skip page pageSize\<rfloor>)
                          (orderBy_createdAt_desc
                             (filter (\<lambda>j. status j = ACTIVE \<and>
                                           (jobTypes = [] \<or> employmentType j \<in> set jobTypes))
                                (jobPosts w)))))"
    using jobs by simp
qed

theorem getData_rows_satisfy_filters_witness:
  "(\<exists>r. getData ex_world 1 2 [''full-time'', ''contract''] ''Berlin'' = Inr r
        \<and> map id_s (jobs r) = [''j3'', ''j1'']
        \<and> (\<forall>s \<in> set (jobs r). employmentType_s s \<in> {''full-time'', ''contract''}
               \<and> location_s s = ''Berlin''))
   \<and> (\<exists>r. getData ex_world 1 2 [] ''worldwide'' = Inr r \<and> map location_s (jobs r) = [''Berlin'', ''Paris''])"
proof -
  let ?T = "[''full-time'', ''contract'']"
  obtain r1 where g1: "getData ex_world 1 2 ?T ''Berlin'' = Inr r1"
    and j1: "jobs r1 = map (select_job ex_world)
                  (take 2 (drop (nat ((1 - 1) * 2))
                     (orderBy_createdAt_desc
                        (filter (getData_where ?T ''Berlin'') (jobPosts ex_world)))))"
    by (simp add: ex_page [of 1])
  have ids: "map id_s (jobs r1) = [''j3'', ''j1'']"
    unfolding j1 by (simp add: ex_defs listing_eval)
  have "\<forall>s \<in> set (jobs r1). employmentType_s s \<in> set ?T \<and> location_s s = ''Berlin''"
    using getData_rows_satisfy_filters [OF g1] by fastforce
  then have props: "\<forall>s \<in> set (jobs r1). employmentType_s s \<in> {''full-time'', ''contract''}
               \<and> location_s s = ''Berlin''"
    by simp
  have "\<exists>r. getData ex_world 1 2 [] ''worldwide'' = Inr r
           \<and> map location_s (jobs r) = [''Berlin'', ''Paris'']"
    by (simp add: ex_page [of 1] ex_defs listing_eval)
  moreover have "\<exists>r. getData ex_world 1 2 ?T ''Berlin'' = Inr r
        \<and> map id_s (jobs r) = [''j3'', ''j1'']
        \<and> (\<forall>s \<in> set (jobs r). employmentType_s s \<in> {''full-time'', ''contract''}
               \<and> location_s s = ''Berlin'')"
    using g1 ids props by (intro exI [of _ r1] conjI) assumption+
  ultimately show ?thesis by (intro conjI) assumption+
qed

subsection \<open>Pagination\<close>

text \<open>
  C5, as stated, promises a page and no error for every page \<open>p \<ge> 1\<close>. For page \<open>2^62\<close>
  and page size 2 the skip \<open>(p - 1) * 2\<close> is computed in double precision as \<open>2^63\<close>, which
  does not fit the 64-bit integer that the query takes: the query fails.
\<close>

theorem getData_huge_page_counterexample:
  "getData ex_world (2 ^ 62) 2 [] [] = Inl PrismaValidationError"
  using getData_skip_huge by (simp add: getData_def Let_def)

text \<open>
  C5, amended. For every page \<open>p \<ge> 1\<close> and page size \<open>s\<close> with \<open>(p - 1) * s\<close> below
  \<open>2^53\<close> (where double precision is exact) and \<open>s\<close> below \<open>2^63\<close>, the query returns (no
  error): it drops the first \<open>(p - 1) * s\<close> matching postings in descending order of creation
  time and keeps the next \<open>s\<close>, so the page has at most \<open>s\<close> rows, sorted by creation time
  descending; a page beyond the last one (beyond the matching rows, or beyond the reported
  \<open>totalPages\<close>) is the empty sequence.
\<close>

theorem getData_pagination:
  assumes "1 \<le> p" and "(p - 1) * int pageSize < 2 ^ 53" and "pageSize < 2 ^ 63"
  shows "\<exists>r. getData w (of_int p) pageSize jobTypes loc = Inr r
          \<and> jobs r = map (select_job w)
                       (take pageSize (drop (nat ((p - 1) * int pageSize))
                          (orderBy_createdAt_desc
                             (filter (getData_where jobTypes loc) (jobPosts w)))))
          \<and> length (jobs r) \<le> pageSize
          \<and> sorted_wrt (\<lambda>a b. createdAt_s b \<le> createdAt_s a) (jobs r)
          \<and> (int (length (filter (getData_where jobTypes loc) (jobPosts w)))
                \<le> (p - 1) * int pageSize \<longrightarrow> jobs r = [])
          \<and> (\<forall>n. totalPages r = Num n \<and> n < p \<longrightarrow> jobs r = [])"
proof -
  let ?M = "filter (getData_where jobTypes loc) (jobPosts w)"
  let ?N = "filter (\<lambda>j. status j = ACTIVE) (jobPosts w)"
  let ?rows = "take pageSize (drop (nat ((p - 1) * int pageSize)) (orderBy_createdAt_desc ?M))"
  define r where
    "r = \<lparr>jobs = map (select_job w) ?rows, totalPages = Math_ceil_div (length ?N) pageSize\<rparr>"
  have ret: "getData w (of_int p) pageSize jobTypes loc = Inr r"
    unfolding r_def using assms refl by (rule getData_ok)
  have rows: "jobs r = map (select_job w) ?rows" by (simp add: r_def)
  have len: "length (jobs r) \<le> pageSize" by (simp add: r_def)
  have srt: "sorted_wrt (\<lambda>a b. createdAt_s b \<le> createdAt_s a) (jobs r)"
    by (simp add: r_def sorted_page)
  have beyond: "jobs r = []" if "int (length ?M) \<le> (p - 1) * int pageSize"
  proof -
    from that have "length ?M \<le> nat ((p - 1) * int pageSize)" by linarith
    then show ?thesis by (simp add: r_def)
  qed
  have MN: "length ?M \<le> length ?N"
  proof -
    have "getData_where jobTypes loc j \<Longrightarrow> status j = ACTIVE" for j
      by (simp add: getData_where_def)
    then show ?thesis by (rule length_filter_mono)
  qed
  have beyond_total: "jobs r = []" if "totalPages r = Num n \<and> n < p" for n
  proof (cases "pageSize = 0")
    case True
    then show ?thesis by (simp add: r_def)
  next
    case False
    with that have "n = \<lceil>real (length ?N) / real pageSize\<rceil>"
      by (simp add: r_def Math_ceil_div_def)
    with that False have "int (length ?N) \<le> (p - 1) * int pageSize"
      by (intro ceil_pages_le) simp_all
    with MN have "int (length ?M) \<le> (p - 1) * int pageSize" by linarith
    then show ?thesis by (rule beyond)
  qed
  show ?thesis
    using ret rows len srt beyond beyond_total by blast
qed

theorem getData_pagination_witness:
  "(\<exists>r. getData ex_world 2 2 [] [] = Inr r \<and> map id_s (jobs r) = [''j1''])
   \<and> (\<exists>r. getData ex_world 1 2 [] [] = Inr r \<and> map createdAt_s (jobs r) = [30, 20])
   \<and> (\<exists>r. getData ex_world 3 2 [] [] = Inr r \<and> jobs r = [] \<and> totalPages r = Num 2)"
proof -
  have h: "(1::int) \<le> 2" "(2 - 1) * int 2 < 2 ^ 53" "(2::nat) < 2 ^ 63" by simp_all
  from getData_pagination [OF h, of ex_world "[]" "[]"]
  obtain r where r: "getData ex_world 2 2 [] [] = Inr r"
    "jobs r = map (select_job ex_world)
                       (take 2 (drop (nat ((2 - 1) * int 2))
                          (orderBy_createdAt_desc
                             (filter (getData_where [] []) (jobPosts ex_world)))))"
    by auto
  have "map id_s (jobs r) = [''j1'']"
    unfolding r(2) by (simp add: ex_defs listing_eval)
  with r(1) have 1: "\<exists>r. getData ex_world 2 2 [] [] = Inr r \<and> map id_s (jobs r) = [''j1'']"
    by (intro exI [of _ r] conjI) assumption+
  have 2: "\<exists>r. getData ex_world 1 2 [] [] = Inr r \<and> map createdAt_s (jobs r) = [30, 20]"
    by (simp add: ex_page [of 1] ex_defs listing_eval)
  have 3: "\<exists>r. getData ex_world 3 2 [] [] = Inr r \<and> jobs r = [] \<and> totalPages r = Num 2"
    by (simp add: ex_page [of 3] ex_defs listing_eval)
  from 1 2 3 show ?thesis by (intro conjI) assumption+
qed

subsection \<open>An empty \<open>jobTypes\<close> parameter\<close>

text \<open>
  C10. When the \<open>jobTypes\<close> query parameter is present and empty, \<open>Home\<close> splits it into
  the one-element list holding the empty string and queries with that list as a (non-empty)
  employment-type filter: for a page number \<open>p \<ge> 1\<close> whose skip \<open>(p - 1) * 2\<close> is below
  \<open>2^53\<close>, the view lists exactly page \<open>p\<close> of the ACTIVE postings whose employment type is
  the empty string (and which meet the location filter), and is the empty state when that
  page is empty. A posting written from a validated form,
  by \<open>createJob\<close> or \<open>editJobPost\<close>, has a non-empty employment type; so for a store of such
  postings the view is the empty state, and there is a store where it is while the same
  request without the parameter lists postings.
\<close>

theorem Home_empty_jobTypes_parameter:
  assumes "jobTypes_q q = Some []"
    and "Home_currentPage toNumber (page_q q) = Finite (of_int p)"
    and "1 \<le> p" and "(p - 1) * 2 < 2 ^ 53"
    and "(case location_q q of None \<Rightarrow> [] | Some s \<Rightarrow> s) = loc"
  shows "split_comma [] = [[]]
       \<and> Home toNumber w q =
           Inr (let rows = map (select_job w)
                             (take 2 (drop (nat ((p - 1) * 2))
                                (orderBy_createdAt_desc
                                   (filter (\<lambda>j. status j = ACTIVE \<and> employmentType j = []
                                              \<and> (loc = [] \<or> loc = ''worldwide'' \<or> location j = loc))
                                      (jobPosts w)))))
                in if rows = [] then EmptyState
                   else Listing rows
                          (Math_ceil_div (length (filter (\<lambda>j. status j = ACTIVE) (jobPosts w))) 2)
                          (of_int p))
       \<and> ((\<forall>j \<in> set (jobPosts w). employmentType j \<noteq> []) \<longrightarrow>
             Home toNumber w q = Inr EmptyState)
       \<and> (\<forall>url d e cid j. jobSchema_ok url d \<longrightarrow>
             employmentType (new_JobPost e cid d) \<noteq> [] \<and> employmentType (edit_data d j) \<noteq> [])
       \<and> (\<exists>w' js tp. js \<noteq> [] \<and> Home toNumber w' q = Inr EmptyState
             \<and> Home toNumber w' (q\<lparr>jobTypes_q := None\<rparr>) = Inr (Listing js tp (of_int p)))"
proof -
  have H: "Home toNumber w' q = JobListingsContent w' (of_int p) [[]] loc" for w'
    using assms(1,2,5) by (simp add: Home_def Let_def)
  have H0: "Home toNumber w' (q\<lparr>jobTypes_q := None\<rparr>) = JobListingsContent w' (of_int p) [] loc" for w'
    using assms(2,5) by (simp add: Home_def Let_def)
  note J = JobListingsContent_ok [OF assms(3,4)]
  have exact: "Home toNumber w q =
           Inr (let rows = map (select_job w)
                             (take 2 (drop (nat ((p - 1) * 2))
                                (orderBy_createdAt_desc
                                   (filter (\<lambda>j. status j = ACTIVE \<and> employmentType j = []
                                              \<and> (loc = [] \<or> loc = ''worldwide'' \<or> location j = loc))
                                      (jobPosts w)))))
                in if rows = [] then EmptyState
                   else Listing rows
                          (Math_ceil_div (length (filter (\<lambda>j. status j = ACTIVE) (jobPosts w))) 2)
                          (of_int p))"
    by (simp only: H J getData_where_blank)
  have empty: "Home toNumber w q = Inr EmptyState"
    if "\<forall>j \<in> set (jobPosts w). employmentType j \<noteq> []"
  proof -
    have "filter (\<lambda>j. status j = ACTIVE \<and> employmentType j = []
                    \<and> (loc = [] \<or> loc = ''worldwide'' \<or> location j = loc)) (jobPosts w) = []"
      using that by (intro filter_none) simp
    then show ?thesis
      by (simp add: exact orderBy_createdAt_desc_def)
  qed
  have link: "employmentType (new_JobPost e cid d) \<noteq> [] \<and> employmentType (edit_data d j) \<noteq> []"
    if "jobSchema_ok url d" for url d e cid j
    using that by (auto simp add: jobSchema_ok_def new_JobPost_def edit_data_def)
  \<comment> \<open>a store with postings of one employment type and location only\<close>
  define w1 where
    "w1 = ex_world\<lparr>jobPosts := map (\<lambda>i. ex_job ''j'' ''full-time'' loc ACTIVE 0)
                                  [0 ..< nat ((p - 1) * 2) + 1]\<rparr>"
  have all: "filter (getData_where [] loc) (jobPosts w1) = jobPosts w1"
    by (simp add: w1_def getData_where_def ex_job_def comp_def)
  have none: "filter (getData_where [[]] loc) (jobPosts w1) = []"
    by (simp add: w1_def getData_where_def ex_job_def comp_def)
  have len: "length (jobPosts w1) = nat ((p - 1) * 2) + 1" by (simp add: w1_def)
  have e1: "Home toNumber w1 q = Inr EmptyState"
    by (simp add: H J none orderBy_createdAt_desc_def)
  have "drop (nat ((p - 1) * 2)) (orderBy_createdAt_desc (jobPosts w1)) \<noteq> []"
    using len by simp
  then have ne: "map (select_job w1) (take 2 (drop (nat ((p - 1) * 2))
                   (orderBy_createdAt_desc (jobPosts w1)))) \<noteq> []"
    by (cases "drop (nat ((p - 1) * 2)) (orderBy_createdAt_desc (jobPosts w1))") simp_all
  have e2: "\<exists>js tp. js \<noteq> [] \<and>
              Home toNumber w1 (q\<lparr>jobTypes_q := None\<rparr>) = Inr (Listing js tp (of_int p))"
    using ne by (simp add: H0 J all Let_def)
  have ex: "\<exists>w' js tp. js \<noteq> [] \<and> Home toNumber w' q = Inr EmptyState
             \<and> Home toNumber w' (q\<lparr>jobTypes_q := None\<rparr>) = Inr (Listing js tp (of_int p))"
    using e1 e2 by blast
  have sp: "split_comma [] = [[]]" by simp
  show ?thesis
    using sp exact empty link ex by (intro conjI allI impI) blast+
qed

theorem Home_empty_jobTypes_parameter_witness:
  "Home (\<lambda>s. NotANumber) ex_world \<lparr>page_q = None, jobTypes_q = Some [], location_q = None\<rparr>
     = Inr EmptyState
   \<and> (\<exists>s. Home (\<lambda>s. NotANumber) ex_world_blank
               \<lparr>page_q = None, jobTypes_q = Some [], location_q = None\<rparr>
             = Inr (Listing [s] (Num 2) 1)
          \<and> id_s s = ''j5'' \<and> employmentType_s s = [])
   \<and> (\<exists>js. map id_s js = [''j3'', ''j2''] \<and>
         Home (\<lambda>s. NotANumber) ex_world \<lparr>page_q = None, jobTypes_q = None, location_q = None\<rparr>
           = Inr (Listing js (Num 2) 1))"
proof -
  let ?q = "\<lparr>page_q = None, jobTypes_q = Some [], location_q = None\<rparr>"
  have h: "jobTypes_q ?q = Some []"
    "Home_currentPage (\<lambda>s. NotANumber) (page_q ?q) = Finite (rat_of_int 1)"
    "(1::int) \<le> 1" "((1::int) - 1) * 2 < 2 ^ 53"
    "(case location_q ?q of None \<Rightarrow> [] | Some s \<Rightarrow> s) = []"
    by (simp_all add: Home_currentPage_def)
  note T = Home_empty_jobTypes_parameter [OF h]
  have typed: "\<forall>j \<in> set (jobPosts ex_world). employmentType j \<noteq> []"
    by (simp add: ex_defs)
  have 1: "Home (\<lambda>s. NotANumber) ex_world ?q = Inr EmptyState"
    using T [of ex_world] typed by blast
  let ?rows = "map (select_job ex_world_blank)
                 (take 2 (drop (nat (((1::int) - 1) * 2))
                    (orderBy_createdAt_desc
                       (filter (\<lambda>j. status j = ACTIVE \<and> employmentType j = []
                                  \<and> (([]::string) = [] \<or> ([]::string) = ''worldwide''
                                      \<or> location j = []))
                          (jobPosts ex_world_blank)))))"
  have rows: "\<exists>s. ?rows = [s] \<and> id_s s = ''j5'' \<and> employmentType_s s = []"
    by (simp add: ex_world_blank_def ex_defs listing_eval)
  have count: "Math_ceil_div (length (filter (\<lambda>j. status j = ACTIVE) (jobPosts ex_world_blank))) 2
                 = Num 2"
    by (simp add: ex_world_blank_def ex_defs listing_eval)
  have "Home (\<lambda>s. NotANumber) ex_world_blank ?q =
          Inr (if ?rows = [] then EmptyState else Listing ?rows (Num 2) 1)"
    using T [of ex_world_blank] by (simp only: Let_def count of_int_1)
  with rows have 2: "\<exists>s. Home (\<lambda>s. NotANumber) ex_world_blank ?q = Inr (Listing [s] (Num 2) 1)
          \<and> id_s s = ''j5'' \<and> employmentType_s s = []"
    by auto
  have 3: "\<exists>js. map id_s js = [''j3'', ''j2''] \<and>
         Home (\<lambda>s. NotANumber) ex_world \<lparr>page_q = None, jobTypes_q = None, location_q = None\<rparr>
           = Inr (Listing js (Num 2) 1)"
    by (simp add: Home_def Home_currentPage_def JobListingsContent_ok [of 1, simplified] ex_defs
      listing_eval Let_def)
  from 1 2 3 show ?thesis by (intro conjI) assumption+
qed

section \<open>Properties of the server actions and the webhook\<close>

subsection \<open>Auxiliary facts about lists and the store operations\<close>

lemmas ex_env_defs = ex_env_def ex_session_def ex_form_def ex_pricing_def ex_event_def

lemma find_None_ball: "\<not> (\<exists>x \<in> set xs. P x) \<Longrightarrow> find P xs = None"
  by (induction xs) auto

lemma find_Some_bex: "\<exists>x \<in> set xs. P x \<Longrightarrow> \<exists>y. find P xs = Some y \<and> y \<in> set xs \<and> P y"
  by (induction xs) auto

lemma jobPost_update_none:
  "\<not> (\<exists>j \<in> set rows. matches j) \<Longrightarrow> jobPost_update matches dat t rows = Inl RecordNotFound"
  by (simp add: jobPost_update_def find_None_ball)

lemma jobPost_update_some:
  assumes "\<exists>j \<in> set rows. matches j"
  shows "jobPost_update matches dat t rows =
           Inr (map (\<lambda>j. if matches j then (dat j)\<lparr>updatedAt := t\<rparr> else j) rows)"
proof -
  from find_Some_bex [OF assms] obtain y where "find matches rows = Some y" by blast
  then show ?thesis by (simp add: jobPost_update_def)
qed

lemma jobPost_update_Inr:
  assumes "jobPost_update matches dat t rows = Inr rows'"
  shows "(\<exists>j \<in> set rows. matches j) \<and>
         rows' = map (\<lambda>j. if matches j then (dat j)\<lparr>updatedAt := t\<rparr> else j) rows"
proof (cases "\<exists>j \<in> set rows. matches j")
  case True
  with assms show ?thesis by (simp add: jobPost_update_some)
next
  case False
  with assms show ?thesis by (simp add: jobPost_update_none)
qed

lemma jobPost_delete_none:
  "\<not> (\<exists>j \<in> set (jobPosts w). matches j) \<Longrightarrow> jobPost_delete matches w = Inl RecordNotFound"
  by (simp add: jobPost_delete_def find_None_ball)

lemma find_by_key:
  "distinct (map f xs) \<Longrightarrow> x \<in> set xs \<Longrightarrow> find (\<lambda>y. f y = f x) xs = Some x"
  by (induction xs) (auto simp add: rev_image_eqI)

lemma map_filter_mem:
  "y \<in> set (List.map_filter f xs) \<longleftrightarrow> (\<exists>x \<in> set xs. f x = Some y)"
  by (induction xs) (auto simp add: List.map_filter_simps split: option.splits)

lemma distinct_map_filter_key:
  "distinct (List.map_filter f xs) \<Longrightarrow> x \<in> set xs \<Longrightarrow> y \<in> set xs \<Longrightarrow>
   f x = Some k \<Longrightarrow> f y = Some k \<Longrightarrow> x = y"
proof (induction xs)
  case Nil
  then show ?case by simp
next
  case (Cons a xs)
  then show ?case
    by (auto simp add: List.map_filter_simps map_filter_mem split: option.splits)
qed

text \<open>The company of a user, looked up by \<open>userId\<close>.\<close>

lemma company_findUnique_userId_ok:
  assumes "consistent w" and "c \<in> set (companies w)" and "userId_co c = uid"
  shows "\<exists>u \<in> set (users w). id_us u = uid \<and>
            company_findUnique_userId w uid = Inr (Some (id_co c, stripeCustomerId u))"
proof -
  have d: "distinct (map userId_co (companies w))"
    using assms(1) by (simp add: consistent_def)
  have fc: "find (\<lambda>y. userId_co y = uid) (companies w) = Some c"
    using find_by_key [OF d assms(2)] assms(3) by simp
  have "uid \<in> set (map id_us (users w))"
    using assms by (auto simp add: consistent_def list_all_iff)
  then have "\<exists>u \<in> set (users w). id_us u = uid" by auto
  from find_Some_bex [OF this]
  obtain u where u: "find (\<lambda>u. id_us u = uid) (users w) = Some u" "u \<in> set (users w)" "id_us u = uid"
    by blast
  then show ?thesis
    using fc assms(3) by (auto simp add: company_findUnique_userId_def)
qed

lemma map_if_none: "\<forall>x \<in> set xs. \<not> P x \<Longrightarrow> map (\<lambda>x. if P x then f x else x) xs = xs"
  by (induction xs) auto

lemma filter_all: "\<forall>x \<in> set xs. P x \<Longrightarrow> filter P xs = xs"
  by (induction xs) auto

lemma find_append_None: "find P xs = None \<Longrightarrow> find P (xs @ ys) = find P ys"
  by (induction xs) (auto split: if_splits)

lemma consistent_ex_world: "consistent ex_world"
  by (simp add: consistent_def ex_defs List.map_filter_simps)

lemma ex_form_ok: "jobSchema_ok (isUrl ex_env) (ex_form d) \<longleftrightarrow> 1 \<le> d"
  by (simp add: jobSchema_ok_def ex_env_defs)

lemma ex_form_Int:
  "Int_columns (ex_form d) =
     (if d \<noteq> of_int \<lfloor>d\<rfloor> then Some PrismaValidationError
      else if d < - (2 ^ 31) \<or> 2 ^ 31 \<le> d then Some ValueOutOfRange else None)"
  by (simp add: Int_columns_def ex_form_def)

lemma Int_columns_None:
  assumes "Int_columns v = None"
  shows "of_int \<lfloor>salaryFrom_f v\<rfloor> = salaryFrom_f v"
    and "of_int \<lfloor>salaryTo_f v\<rfloor> = salaryTo_f v"
    and "of_int \<lfloor>listingDuration_f v\<rfloor> = listingDuration_f v"
    and "- (2 ^ 31) \<le> salaryFrom_f v \<and> salaryFrom_f v < 2 ^ 31"
    and "- (2 ^ 31) \<le> salaryTo_f v \<and> salaryTo_f v < 2 ^ 31"
    and "- (2 ^ 31) \<le> listingDuration_f v \<and> listingDuration_f v < 2 ^ 31"
  using assms by (auto simp add: Int_columns_def Let_def split: if_splits)

subsection \<open>Ownership of the edited or deleted posting\<close>

text \<open>
  C3. Let the signed-in caller own no Company to which a posting with id \<open>jobId\<close> belongs
  (no such posting exists, or it belongs to somebody else's company). Then \<open>editJobPost\<close>
  and \<open>deleteJobPost\<close> on \<open>jobId\<close> fail and leave the whole state, hence the targeted
  row, as it was; and whenever the call reaches the table (the request is not denied and,
  for the edit, the data validate and their numbers pass as \<open>Int\<close> columns), the mutation
  matches no row and the failure is the one "record not found" error, the same for a
  missing and for a foreign posting.
\<close>

theorem unowned_job_mutation_not_found:
  assumes "\<not> (\<exists>j \<in> set (jobPosts w). id_jp j = jobId \<and> owned_by w (id_su user) j)"
  shows "(\<not> isDenied e \<and> jobSchema_ok (isUrl e) data \<and> Int_columns data = None \<longrightarrow>
            editJobPost e (Some user) data jobId w = (Thrown RecordNotFound, w))
       \<and> (\<not> isDenied e \<longrightarrow>
            deleteJobPost e (Some user) jobId w = (Thrown RecordNotFound, w))
       \<and> (\<exists>err. editJobPost e (Some user) data jobId w = (Thrown err, w))
       \<and> (\<exists>err. deleteJobPost e (Some user) jobId w = (Thrown err, w))"
proof -
  have upd: "jobPost_update (\<lambda>j. id_jp j = jobId \<and> owned_by w (id_su user) j) dat t (jobPosts w)
               = Inl RecordNotFound" for dat t
    using assms by (intro jobPost_update_none) simp
  have del: "jobPost_delete (\<lambda>j. id_jp j = jobId \<and> owned_by w (id_su user) j) w
               = Inl RecordNotFound"
    using assms by (intro jobPost_delete_none) simp
  show ?thesis
    by (simp add: editJobPost_def deleteJobPost_def jobSchema_parse_def upd del
        split: option.splits)
qed

theorem unowned_job_mutation_not_found_witness:
  "editJobPost ex_env (Some (ex_session ''u2'')) (ex_form 30) ''j1'' ex_world
     = (Thrown RecordNotFound, ex_world)
   \<and> editJobPost ex_env (Some (ex_session ''u2'')) (ex_form 30) ''j0'' ex_world
     = (Thrown RecordNotFound, ex_world)
   \<and> deleteJobPost ex_env (Some (ex_session ''u2'')) ''j1'' ex_world
     = (Thrown RecordNotFound, ex_world)
   \<and> deleteJobPost ex_env (Some (ex_session ''u2'')) ''j0'' ex_world
     = (Thrown RecordNotFound, ex_world)
   \<and> (\<exists>j \<in> set (jobPosts ex_world). id_jp j = ''j1'')
   \<and> \<not> (\<exists>j \<in> set (jobPosts ex_world). id_jp j = ''j0'')"
proof -
  have own1: "\<not> (\<exists>j \<in> set (jobPosts ex_world). id_jp j = ''j1'' \<and>
                   owned_by ex_world (id_su (ex_session ''u2'')) j)"
    by (simp add: ex_defs ex_env_defs owned_by_def)
  have own0: "\<not> (\<exists>j \<in> set (jobPosts ex_world). id_jp j = ''j0'' \<and>
                   owned_by ex_world (id_su (ex_session ''u2'')) j)"
    by (simp add: ex_defs ex_env_defs owned_by_def)
  have env: "\<not> isDenied ex_env" "jobSchema_ok (isUrl ex_env) (ex_form 30)"
      "Int_columns (ex_form 30) = None"
    by (simp_all add: ex_env_defs jobSchema_ok_def Int_columns_def)
  have ids: "(\<exists>j \<in> set (jobPosts ex_world). id_jp j = ''j1'')
             \<and> \<not> (\<exists>j \<in> set (jobPosts ex_world). id_jp j = ''j0'')"
    by (simp add: ex_defs)
  show ?thesis
    using unowned_job_mutation_not_found [OF own1, of ex_env "ex_form 30"]
      unowned_job_mutation_not_found [OF own0, of ex_env "ex_form 30"] env ids
    by simp
qed

subsection \<open>A successful edit\<close>

lemma editJobPost_success:
  assumes "editJobPost e session data jobId w = (Redirected ''/my-jobs'', w')"
  shows "\<exists>user. session = Some user \<and> \<not> isDenied e \<and> jobSchema_ok (isUrl e) data
           \<and> Int_columns data = None
           \<and> (\<exists>j \<in> set (jobPosts w). id_jp j = jobId \<and> owned_by w (id_su user) j)
           \<and> w' = w\<lparr>jobPosts :=
                       map (\<lambda>j. if id_jp j = jobId \<and> owned_by w (id_su user) j
                                 then (edit_data data j)\<lparr>updatedAt := now e\<rparr> else j)
                         (jobPosts w)\<rparr>"
proof (cases session)
  case None
  with assms show ?thesis by (simp add: editJobPost_def)
next
  case (Some user)
  with assms have g: "\<not> isDenied e" "jobSchema_ok (isUrl e) data" "Int_columns data = None"
    by (auto simp add: editJobPost_def jobSchema_parse_def split: if_splits option.splits)
  with assms Some obtain rows where
    r: "jobPost_update (\<lambda>j. id_jp j = jobId \<and> owned_by w (id_su user) j)
          (edit_data data) (now e) (jobPosts w) = Inr rows" and w': "w' = w\<lparr>jobPosts := rows\<rparr>"
    by (auto simp add: editJobPost_def jobSchema_parse_def split: sum.splits)
  from jobPost_update_Inr [OF r] w' g Some show ?thesis by simp
qed

text \<open>
  C8. An \<open>editJobPost\<close> that succeeds (it redirects to \<open>/my-jobs\<close>) was called by a
  signed-in user who owns the targeted posting, and it writes to that posting exactly the
  eight form fields jobTitle, employmentType, location, salaryFrom, salaryTo,
  jobDescription, listingDuration and benefits, the three numbers being integers (the store
  stamps the \<open>@updatedAt\<close> column, as on every update). The status, the owning company, the
  id and the creation time of every posting are unchanged, and so are all other postings and
  tables. The edit does succeed for every allowed request on a posting the caller owns whose
  data validate and whose numbers pass as \<open>Int\<close> columns.
\<close>

theorem editJobPost_replaces_form_fields:
  "(editJobPost e session data jobId w = (Redirected ''/my-jobs'', w') \<longrightarrow>
      (\<exists>user. session = Some user
         \<and> (\<exists>j \<in> set (jobPosts w). id_jp j = jobId \<and> owned_by w (id_su user) j)
         \<and> w' = w\<lparr>jobPosts :=
                     map (\<lambda>j. if id_jp j = jobId \<and> owned_by w (id_su user) j
                               then j\<lparr>jobTitle := jobTitle_f data,
                                      employmentType := employmentType_f data,
                                      location := location_f data,
                                      salaryFrom := \<lfloor>salaryFrom_f data\<rfloor>,
                                      salaryTo := \<lfloor>salaryTo_f data\<rfloor>,
                                      jobDescription := jobDescription_f data,
                                      listingDuration := \<lfloor>listingDuration_f data\<rfloor>,
                                      benefits := benefits_f data,
                                      updatedAt := now e\<rparr>
                               else j)
                       (jobPosts w)\<rparr>)
      \<and> of_int \<lfloor>salaryFrom_f data\<rfloor> = salaryFrom_f data
      \<and> of_int \<lfloor>salaryTo_f data\<rfloor> = salaryTo_f data
      \<and> of_int \<lfloor>listingDuration_f data\<rfloor> = listingDuration_f data
      \<and> map status (jobPosts w') = map status (jobPosts w)
      \<and> map companyId (jobPosts w') = map companyId (jobPosts w)
      \<and> map id_jp (jobPosts w') = map id_jp (jobPosts w)
      \<and> map createdAt (jobPosts w') = map createdAt (jobPosts w))
   \<and> (\<not> isDenied e \<and> jobSchema_ok (isUrl e) data \<and> Int_columns data = None
        \<and> (\<exists>j \<in> set (jobPosts w). id_jp j = jobId \<and> owned_by w (id_su user) j) \<longrightarrow>
        (\<exists>w''. editJobPost e (Some user) data jobId w = (Redirected ''/my-jobs'', w'')))"
proof (intro conjI impI; (elim conjE)?)
  assume a: "editJobPost e session data jobId w = (Redirected ''/my-jobs'', w')"
  from editJobPost_success [OF a]
  obtain user where u: "session = Some user"
      "\<exists>j \<in> set (jobPosts w). id_jp j = jobId \<and> owned_by w (id_su user) j"
      "Int_columns data = None"
      "w' = w\<lparr>jobPosts :=
                       map (\<lambda>j. if id_jp j = jobId \<and> owned_by w (id_su user) j
                                 then (edit_data data j)\<lparr>updatedAt := now e\<rparr> else j)
                         (jobPosts w)\<rparr>"
    by blast
  then show "\<exists>user. session = Some user
         \<and> (\<exists>j \<in> set (jobPosts w). id_jp j = jobId \<and> owned_by w (id_su user) j)
         \<and> w' = w\<lparr>jobPosts :=
                     map (\<lambda>j. if id_jp j = jobId \<and> owned_by w (id_su user) j
                               then j\<lparr>jobTitle := jobTitle_f data,
                                      employmentType := employmentType_f data,
                                      location := location_f data,
                                      salaryFrom := \<lfloor>salaryFrom_f data\<rfloor>,
                                      salaryTo := \<lfloor>salaryTo_f data\<rfloor>,
                                      jobDescription := jobDescription_f data,
                                      listingDuration := \<lfloor>listingDuration_f data\<rfloor>,
                                      benefits := benefits_f data,
                                      updatedAt := now e\<rparr>
                               else j)
                       (jobPosts w)\<rparr>"
    by (simp add: edit_data_def)
  show "of_int \<lfloor>salaryFrom_f data\<rfloor> = salaryFrom_f data"
    "of_int \<lfloor>salaryTo_f data\<rfloor> = salaryTo_f data"
    "of_int \<lfloor>listingDuration_f data\<rfloor> = listingDuration_f data"
    using Int_columns_None [OF u(3)] by simp_all
  show "map status (jobPosts w') = map status (jobPosts w)"
    using u(4) by (simp add: edit_data_def comp_def if_distrib cong: if_cong)
  show "map companyId (jobPosts w') = map companyId (jobPosts w)"
    using u(4) by (simp add: edit_data_def comp_def if_distrib cong: if_cong)
  show "map id_jp (jobPosts w') = map id_jp (jobPosts w)"
    using u(4) by (simp add: edit_data_def comp_def if_distrib cong: if_cong)
  show "map createdAt (jobPosts w') = map createdAt (jobPosts w)"
    using u(4) by (simp add: edit_data_def comp_def if_distrib cong: if_cong)
next
  assume "\<not> isDenied e" "jobSchema_ok (isUrl e) data" "Int_columns data = None"
    "\<exists>j \<in> set (jobPosts w). id_jp j = jobId \<and> owned_by w (id_su user) j"
  then show "\<exists>w''. editJobPost e (Some user) data jobId w = (Redirected ''/my-jobs'', w'')"
    by (simp add: editJobPost_def jobSchema_parse_def jobPost_update_some)
qed

theorem editJobPost_replaces_form_fields_witness:
  "\<exists>w'. editJobPost ex_env (Some (ex_session ''u1'')) (ex_form 60) ''j4'' ex_world
           = (Redirected ''/my-jobs'', w')
      \<and> map jobTitle (jobPosts w') = [''Engineer'', ''Engineer'', ''Engineer'', ''Tester'']
      \<and> map listingDuration (jobPosts w') = [30, 30, 30, 60]
      \<and> map status (jobPosts w') = [ACTIVE, ACTIVE, ACTIVE, DRAFT]
      \<and> map companyId (jobPosts w') = [''c1'', ''c1'', ''c1'', ''c1'']"
proof -
  have own: "\<not> isDenied ex_env \<and> jobSchema_ok (isUrl ex_env) (ex_form 60)
        \<and> Int_columns (ex_form 60) = None
        \<and> (\<exists>j \<in> set (jobPosts ex_world).
              id_jp j = ''j4'' \<and> owned_by ex_world (id_su (ex_session ''u1'')) j)"
    by (simp add: ex_form_ok ex_form_Int) (simp add: ex_defs ex_env_def ex_session_def owned_by_def)
  note T = editJobPost_replaces_form_fields
             [of ex_env _ "ex_form 60" "''j4''" ex_world _ "ex_session ''u1''"]
  from T own obtain w' where
    run: "editJobPost ex_env (Some (ex_session ''u1'')) (ex_form 60) ''j4'' ex_world
            = (Redirected ''/my-jobs'', w')"
    by blast
  from editJobPost_replaces_form_fields
         [of ex_env "Some (ex_session ''u1'')" "ex_form 60" "''j4''" ex_world w'] run
  have w': "w' = ex_world\<lparr>jobPosts :=
                     map (\<lambda>j. if id_jp j = ''j4'' \<and> owned_by ex_world (id_su (ex_session ''u1'')) j
                               then j\<lparr>jobTitle := jobTitle_f (ex_form 60),
                                      employmentType := employmentType_f (ex_form 60),
                                      location := location_f (ex_form 60),
                                      salaryFrom := \<lfloor>salaryFrom_f (ex_form 60)\<rfloor>,
                                      salaryTo := \<lfloor>salaryTo_f (ex_form 60)\<rfloor>,
                                      jobDescription := jobDescription_f (ex_form 60),
                                      listingDuration := \<lfloor>listingDuration_f (ex_form 60)\<rfloor>,
                                      benefits := benefits_f (ex_form 60),
                                      updatedAt := now ex_env\<rparr>
                               else j)
                       (jobPosts ex_world)\<rparr>"
    and frame: "map status (jobPosts w') = map status (jobPosts ex_world)"
      "map companyId (jobPosts w') = map companyId (jobPosts ex_world)"
    by auto
  have "map jobTitle (jobPosts w') = [''Engineer'', ''Engineer'', ''Engineer'', ''Tester'']"
    "map listingDuration (jobPosts w') = [30, 30, 30, 60]"
    unfolding w' by (simp_all add: ex_defs ex_env_defs owned_by_def)
  moreover have "map status (jobPosts w') = [ACTIVE, ACTIVE, ACTIVE, DRAFT]"
    "map companyId (jobPosts w') = [''c1'', ''c1'', ''c1'', ''c1'']"
    unfolding frame by (simp_all add: ex_defs)
  ultimately show ?thesis
    using run by (intro exI [of _ w'] conjI) assumption+
qed

subsection \<open>Saving and unsaving\<close>

lemma savedJobPost_create_ok:
  assumes "uuid e \<notin> set (map id_sv (savedJobPosts w))"
    and "\<not> (\<exists>s \<in> set (savedJobPosts w). userId s = uid \<and> jobPostId s = jid)"
    and "jid \<in> set (map id_jp (jobPosts w))" and "uid \<in> set (map id_us (users w))"
  shows "savedJobPost_create e jid uid w =
           Inr (w\<lparr>savedJobPosts := savedJobPosts w @
                  [\<lparr>id_sv = uuid e, jobPostId = jid, userId = uid,
                    createdAt_sv = now e, updatedAt_sv = now e\<rparr>]\<rparr>)"
proof -
  have "\<not> list_ex (\<lambda>s. id_sv s = uuid e) (savedJobPosts w)"
    using assms(1) by (force simp add: list_ex_iff)
  moreover have "\<not> list_ex (\<lambda>s. userId s = uid \<and> jobPostId s = jid) (savedJobPosts w)"
    using assms(2) by (simp add: list_ex_iff)
  moreover have "list_ex (\<lambda>j. id_jp j = jid) (jobPosts w)"
    using assms(3) by (auto simp add: list_ex_iff)
  moreover have "list_ex (\<lambda>u. id_us u = uid) (users w)"
    using assms(4) by (auto simp add: list_ex_iff)
  ultimately show ?thesis
    by (simp add: savedJobPost_create_def Let_def)
qed

lemma savedJobPost_create_duplicate:
  assumes "uuid e \<notin> set (map id_sv (savedJobPosts w))"
    and "\<exists>s \<in> set (savedJobPosts w). userId s = uid \<and> jobPostId s = jid"
  shows "savedJobPost_create e jid uid w = Inl (UniqueConstraintFailed [''userId'', ''jobPostId''])"
proof -
  have "\<not> list_ex (\<lambda>s. id_sv s = uuid e) (savedJobPosts w)"
    using assms(1) by (force simp add: list_ex_iff)
  moreover have "list_ex (\<lambda>s. userId s = uid \<and> jobPostId s = jid) (savedJobPosts w)"
    using assms(2) by (simp add: list_ex_iff)
  ultimately show ?thesis
    by (simp add: savedJobPost_create_def Let_def)
qed

lemma savedJobPost_delete_last:
  assumes "sid \<notin> set (map id_sv rows)" and "savedJobPosts w = rows @ [r]"
    and "id_sv r = sid" and "userId r = uid"
  shows "savedJobPost_delete sid uid w = Inr (jobPostId r, w\<lparr>savedJobPosts := rows\<rparr>)"
proof -
  let ?m = "\<lambda>s. id_sv s = sid \<and> userId s = uid"
  have none: "\<not> (\<exists>x \<in> set rows. ?m x)" using assms(1) by force
  then have "find ?m rows = None" by (rule find_None_ball)
  then have f: "find ?m (savedJobPosts w) = Some r"
    using assms by (simp add: find_append_None)
  have "filter (\<lambda>x. \<not> ?m x) rows = rows" using none by (intro filter_all) simp
  then show ?thesis
    using f assms by (simp add: savedJobPost_delete_def)
qed

text \<open>
  C7. Let the request be allowed and the generated id be new. If user \<open>u\<close> has not saved
  the existing posting \<open>j\<close>, then \<open>saveJobPost j\<close> as \<open>u\<close> appends one record, and
  \<open>unSaveJobPost\<close> of that record as \<open>u\<close> restores the table of saved postings (so \<open>u\<close>'s
  saved set) to what it was, leaving users, companies and postings untouched; saving \<open>j\<close>
  again while the record exists fails. In general, when the pair \<open>(u, j)\<close> is already
  stored, \<open>saveJobPost j\<close> as \<open>u\<close> throws the violation of the unique constraint on
  \<open>(userId, jobPostId)\<close> and changes nothing.
\<close>

theorem save_unsave_roundtrip:
  assumes "\<not> isDenied e1" and "uuid e1 \<notin> set (map id_sv (savedJobPosts w))"
  shows "(\<not> (\<exists>s \<in> set (savedJobPosts w). userId s = id_su user \<and> jobPostId s = jobId)
          \<and> jobId \<in> set (map id_jp (jobPosts w)) \<and> id_su user \<in> set (map id_us (users w))
          \<and> \<not> isDenied e2 \<longrightarrow>
            (\<exists>w1 w2. saveJobPost e1 (Some user) jobId w = (Returned, w1)
               \<and> savedJobPosts w1 = savedJobPosts w @
                    [\<lparr>id_sv = uuid e1, jobPostId = jobId, userId = id_su user,
                      createdAt_sv = now e1, updatedAt_sv = now e1\<rparr>]
               \<and> unSaveJobPost e2 (Some user) (uuid e1) w1 = (Returned, w2)
               \<and> savedJobPosts w2 = savedJobPosts w
               \<and> users w2 = users w \<and> companies w2 = companies w \<and> jobPosts w2 = jobPosts w
               \<and> (uuid e2 \<notin> set (map id_sv (savedJobPosts w1)) \<longrightarrow>
                    saveJobPost e2 (Some user) jobId w1
                      = (Thrown (UniqueConstraintFailed [''userId'', ''jobPostId'']), w1))))
       \<and> ((\<exists>s \<in> set (savedJobPosts w). userId s = id_su user \<and> jobPostId s = jobId) \<longrightarrow>
            saveJobPost e1 (Some user) jobId w
              = (Thrown (UniqueConstraintFailed [''userId'', ''jobPostId'']), w))"
proof (intro conjI impI; (elim conjE)?)
  let ?r = "\<lparr>id_sv = uuid e1, jobPostId = jobId, userId = id_su user,
             createdAt_sv = now e1, updatedAt_sv = now e1\<rparr>"
  assume a: "\<not> (\<exists>s \<in> set (savedJobPosts w). userId s = id_su user \<and> jobPostId s = jobId)"
    "jobId \<in> set (map id_jp (jobPosts w))" "id_su user \<in> set (map id_us (users w))"
    "\<not> isDenied e2"
  let ?w0 = "w\<lparr>savedJobPosts := savedJobPosts w @ [?r]\<rparr>"
  let ?w1 = "?w0\<lparr>revalidated := revalidated ?w0 @ [''/job/'' @ jobId]\<rparr>"
  have s1: "saveJobPost e1 (Some user) jobId w = (Returned, ?w1)"
    using assms(1) savedJobPost_create_ok [OF assms(2) a(1) a(2) a(3)]
    by (simp add: saveJobPost_def)
  have "savedJobPost_delete (uuid e1) (id_su user) ?w1
          = Inr (jobPostId ?r, ?w1\<lparr>savedJobPosts := savedJobPosts w\<rparr>)"
    using assms(2) by (intro savedJobPost_delete_last) simp_all
  then have s2: "unSaveJobPost e2 (Some user) (uuid e1) ?w1 =
          (Returned, ?w1\<lparr>savedJobPosts := savedJobPosts w,
                         revalidated := revalidated ?w1 @ [''/job/'' @ jobId]\<rparr>)"
    using a(4) by (simp add: unSaveJobPost_def)
  have s3: "saveJobPost e2 (Some user) jobId ?w1
              = (Thrown (UniqueConstraintFailed [''userId'', ''jobPostId'']), ?w1)"
    if "uuid e2 \<notin> set (map id_sv (savedJobPosts ?w1))"
  proof -
    have "\<exists>s \<in> set (savedJobPosts ?w1). userId s = id_su user \<and> jobPostId s = jobId"
      by simp
    from savedJobPost_create_duplicate [OF that this] a(4)
    show ?thesis by (simp add: saveJobPost_def)
  qed
  show "\<exists>w1 w2. saveJobPost e1 (Some user) jobId w = (Returned, w1)
               \<and> savedJobPosts w1 = savedJobPosts w @ [?r]
               \<and> unSaveJobPost e2 (Some user) (uuid e1) w1 = (Returned, w2)
               \<and> savedJobPosts w2 = savedJobPosts w
               \<and> users w2 = users w \<and> companies w2 = companies w \<and> jobPosts w2 = jobPosts w
               \<and> (uuid e2 \<notin> set (map id_sv (savedJobPosts w1)) \<longrightarrow>
                    saveJobPost e2 (Some user) jobId w1
                      = (Thrown (UniqueConstraintFailed [''userId'', ''jobPostId'']), w1))"
    using s1 s2 s3
    by (intro exI [of _ ?w1]
          exI [of _ "?w1\<lparr>savedJobPosts := savedJobPosts w,
                         revalidated := revalidated ?w1 @ [''/job/'' @ jobId]\<rparr>"]) simp
next
  assume "\<exists>s \<in> set (savedJobPosts w). userId s = id_su user \<and> jobPostId s = jobId"
  from savedJobPost_create_duplicate [OF assms(2) this] assms(1)
  show "saveJobPost e1 (Some user) jobId w
              = (Thrown (UniqueConstraintFailed [''userId'', ''jobPostId'']), w)"
    by (simp add: saveJobPost_def)
qed

theorem save_unsave_roundtrip_witness:
  "\<exists>w1 w2.
     saveJobPost (ex_env\<lparr>uuid := ''s1''\<rparr>) (Some (ex_session ''u2'')) ''j1'' ex_world
       = (Returned, w1)
   \<and> map id_sv (savedJobPosts w1) = [''s1'']
   \<and> unSaveJobPost (ex_env\<lparr>uuid := ''s2''\<rparr>) (Some (ex_session ''u2'')) ''s1'' w1
       = (Returned, w2)
   \<and> savedJobPosts w2 = savedJobPosts ex_world
   \<and> saveJobPost (ex_env\<lparr>uuid := ''s2''\<rparr>) (Some (ex_session ''u2'')) ''j1'' w1
       = (Thrown (UniqueConstraintFailed [''userId'', ''jobPostId'']), w1)"
proof -
  let ?e1 = "ex_env\<lparr>uuid := ''s1''\<rparr>" and ?e2 = "ex_env\<lparr>uuid := ''s2''\<rparr>"
  have h: "\<not> isDenied ?e1" "uuid ?e1 \<notin> set (map id_sv (savedJobPosts ex_world))"
    by (simp_all add: ex_defs ex_env_def)
  have p: "\<not> (\<exists>s \<in> set (savedJobPosts ex_world).
                userId s = id_su (ex_session ''u2'') \<and> jobPostId s = ''j1'')
           \<and> ''j1'' \<in> set (map id_jp (jobPosts ex_world))
           \<and> id_su (ex_session ''u2'') \<in> set (map id_us (users ex_world))
           \<and> \<not> isDenied ?e2"
    by (simp add: ex_defs ex_env_def ex_session_def)
  from save_unsave_roundtrip [OF h, of "ex_session ''u2''" "''j1''" ?e2] p
  obtain w1 w2 where
    s: "saveJobPost ?e1 (Some (ex_session ''u2'')) ''j1'' ex_world = (Returned, w1)"
       "savedJobPosts w1 = savedJobPosts ex_world @
                    [\<lparr>id_sv = uuid ?e1, jobPostId = ''j1'', userId = id_su (ex_session ''u2''),
                      createdAt_sv = now ?e1, updatedAt_sv = now ?e1\<rparr>]"
       "unSaveJobPost ?e2 (Some (ex_session ''u2'')) (uuid ?e1) w1 = (Returned, w2)"
       "savedJobPosts w2 = savedJobPosts ex_world"
       "uuid ?e2 \<notin> set (map id_sv (savedJobPosts w1)) \<longrightarrow>
                    saveJobPost ?e2 (Some (ex_session ''u2'')) ''j1'' w1
                      = (Thrown (UniqueConstraintFailed [''userId'', ''jobPostId'']), w1)"
    by blast
  have ids: "map id_sv (savedJobPosts w1) = [''s1'']"
    unfolding s(2) by (simp add: ex_defs ex_env_def)
  then have "saveJobPost ?e2 (Some (ex_session ''u2'')) ''j1'' w1
                      = (Thrown (UniqueConstraintFailed [''userId'', ''jobPostId'']), w1)"
    using s(5) by simp
  moreover have "unSaveJobPost ?e2 (Some (ex_session ''u2'')) ''s1'' w1 = (Returned, w2)"
    using s(3) by simp
  ultimately show ?thesis
    using s(1,4) ids
    by (intro exI [of _ w1] exI [of _ w2] conjI) assumption+
qed

subsection \<open>Creating a posting\<close>

lemma ensure_stripe_customer_ok:
  assumes cons: "consistent w" and u: "u \<in> set (users w)" "id_us u = id_su user"
    and fresh: "stripeCustomerId u = None \<or> stripeCustomerId u = Some [] \<Longrightarrow>
                stripe_customer e \<notin> set (List.map_filter stripeCustomerId (users w))"
  shows "\<exists>cust w1. ensure_stripe_customer e user (stripeCustomerId u) w = Inr (cust, w1)
           \<and> companies w1 = companies w \<and> jobPosts w1 = jobPosts w
           \<and> savedJobPosts w1 = savedJobPosts w \<and> inngest_sent w1 = inngest_sent w
           \<and> checkouts w1 = checkouts w \<and> revalidated w1 = revalidated w
           \<and> (\<exists>u1. find (\<lambda>x. stripeCustomerId x = Some cust) (users w1) = Some u1
                     \<and> id_us u1 = id_su user)"
proof (cases "\<exists>s. stripeCustomerId u = Some s \<and> s \<noteq> []")
  case True
  then obtain s where s: "stripeCustomerId u = Some s" "s \<noteq> []" by blast
  have d: "distinct (List.map_filter stripeCustomerId (users w))"
    using cons by (simp add: consistent_def)
  have "\<exists>x \<in> set (users w). stripeCustomerId x = Some s" using u s by blast
  from find_Some_bex [OF this]
  obtain u1 where u1: "find (\<lambda>x. stripeCustomerId x = Some s) (users w) = Some u1"
      "u1 \<in> set (users w)" "stripeCustomerId u1 = Some s"
    by blast
  have "u1 = u"
    using distinct_map_filter_key [OF d u1(2) u(1) u1(3) s(1)] .
  then show ?thesis
    using s u1 u by (simp add: ensure_stripe_customer_def)
next
  case False
  let ?cust = "stripe_customer e"
  define g where
    "g = (\<lambda>x::User. if id_us x = id_su user then x\<lparr>stripeCustomerId := Some ?cust\<rparr> else x)"
  let ?w1 = "w\<lparr>users := map g (users w)\<rparr>"
  have "stripeCustomerId u = None \<or> stripeCustomerId u = Some []"
    using False by (cases "stripeCustomerId u") auto
  then have nobody: "\<not> (\<exists>x \<in> set (users w). stripeCustomerId x = Some ?cust)"
    using fresh by (simp add: map_filter_mem)
  have "\<exists>x \<in> set (users w). id_us x = id_su user" using u by blast
  from find_Some_bex [OF this]
  obtain u0 where "find (\<lambda>x. id_us x = id_su user) (users w) = Some u0" by blast
  moreover have "\<not> list_ex (\<lambda>x. id_us x \<noteq> id_su user \<and> stripeCustomerId x = Some ?cust) (users w)"
    using nobody by (auto simp add: list_ex_iff)
  ultimately have upd: "user_update_stripeCustomerId (id_su user) ?cust w = Inr ?w1"
    by (simp add: user_update_stripeCustomerId_def g_def)
  have ens: "ensure_stripe_customer e user (stripeCustomerId u) w = Inr (?cust, ?w1)"
    using False upd by (cases "stripeCustomerId u") (simp_all add: ensure_stripe_customer_def)
  have "g u \<in> set (map g (users w))" using u(1) by simp
  moreover have "stripeCustomerId (g u) = Some ?cust" using u(2) by (simp add: g_def)
  ultimately have "\<exists>x \<in> set (map g (users w)). stripeCustomerId x = Some ?cust"
    by blast
  from find_Some_bex [OF this]
  obtain u1 where u1: "find (\<lambda>x. stripeCustomerId x = Some ?cust) (map g (users w)) = Some u1"
      "u1 \<in> set (map g (users w))" "stripeCustomerId u1 = Some ?cust"
    by blast
  from u1(2) obtain x where x: "x \<in> set (users w)" "u1 = g x" by auto
  have "id_us u1 = id_su user"
  proof (cases "id_us x = id_su user")
    case True
    with x show ?thesis by (simp add: g_def)
  next
    case False
    with x u1(3) nobody show ?thesis by (auto simp add: g_def)
  qed
  with u1(1) ens show ?thesis by simp
qed

text \<open>From the session to the insertion: the steps of \<open>createJob\<close> before \<open>createJob_post\<close>.\<close>

lemma createJob_reaches_post:
  assumes cons: "consistent w" and c: "c \<in> set (companies w)" "userId_co c = id_su user"
      "id_co c \<noteq> []"
    and valid: "jobSchema_ok (isUrl e) data"
    and fresh: "\<forall>u \<in> set (users w). id_us u = id_su user \<and>
                  (stripeCustomerId u = None \<or> stripeCustomerId u = Some []) \<longrightarrow>
                  stripe_customer e \<notin> set (List.map_filter stripeCustomerId (users w))"
  shows "\<exists>cust w1. createJob pricing e (Some user) data w
                      = createJob_post pricing e (id_co c) cust data w1
           \<and> companies w1 = companies w \<and> jobPosts w1 = jobPosts w
           \<and> savedJobPosts w1 = savedJobPosts w \<and> inngest_sent w1 = inngest_sent w
           \<and> checkouts w1 = checkouts w \<and> revalidated w1 = revalidated w
           \<and> (\<exists>u1. find (\<lambda>x. stripeCustomerId x = Some cust) (users w1) = Some u1
                     \<and> id_us u1 = id_su user)"
proof -
  from company_findUnique_userId_ok [OF cons c(1) c(2)]
  obtain u where u: "u \<in> set (users w)" "id_us u = id_su user"
      "company_findUnique_userId w (id_su user) = Inr (Some (id_co c, stripeCustomerId u))"
    by blast
  have "stripeCustomerId u = None \<or> stripeCustomerId u = Some [] \<Longrightarrow>
          stripe_customer e \<notin> set (List.map_filter stripeCustomerId (users w))"
    using fresh u(1,2) by blast
  from ensure_stripe_customer_ok [OF cons u(1) u(2) this]
  obtain cust w1 where e: "ensure_stripe_customer e user (stripeCustomerId u) w = Inr (cust, w1)"
    and rest: "companies w1 = companies w" "jobPosts w1 = jobPosts w"
      "savedJobPosts w1 = savedJobPosts w" "inngest_sent w1 = inngest_sent w"
      "checkouts w1 = checkouts w" "revalidated w1 = revalidated w"
      "\<exists>u1. find (\<lambda>x. stripeCustomerId x = Some cust) (users w1) = Some u1
                     \<and> id_us u1 = id_su user"
    by blast
  have "createJob pricing e (Some user) data w = createJob_post pricing e (id_co c) cust data w1"
    using valid u(3) c(3) e by (simp add: createJob_def jobSchema_parse_def)
  with rest show ?thesis by blast
qed

lemma jobPost_create_ok:
  assumes "uuid e \<notin> set (map id_jp (jobPosts w))" and "c \<in> set (companies w)"
    and "Int_columns v = None"
  shows "jobPost_create e (id_co c) v w
           = Inr (new_JobPost e (id_co c) v, w\<lparr>jobPosts := jobPosts w @ [new_JobPost e (id_co c) v]\<rparr>)"
proof -
  have "\<not> list_ex (\<lambda>j. id_jp j = uuid e) (jobPosts w)"
    using assms(1) by (force simp add: list_ex_iff)
  moreover have "list_ex (\<lambda>x. id_co x = id_co c) (companies w)"
    using assms(2) by (auto simp add: list_ex_iff)
  ultimately show ?thesis
    using assms(3) by (simp add: jobPost_create_def Let_def)
qed

lemma createJob_post_eq:
  assumes "uuid e \<notin> set (map id_jp (jobPosts w))" and "c \<in> set (companies w)"
    and "Int_columns v = None"
  shows "createJob_post pricing e (id_co c) cust v w =
           (let w2 = w\<lparr>jobPosts := jobPosts w @ [new_JobPost e (id_co c) v],
                        inngest_sent := inngest_sent w @ [JobCreated (uuid e) (listingDuration_f v)]\<rparr>
            in case find (\<lambda>tier. days tier = listingDuration_f v) pricing of
                 None \<Rightarrow> (Thrown InvalidListingDuration, w2)
               | Some pricingTier \<Rightarrow>
                   (Redirected (stripe_session_url e),
                    w2\<lparr>checkouts := checkouts w @
                          [\<lparr>customer_rq = cust, unit_amount = price pricingTier * 100,
                            description_rq = description pricingTier,
                            metadata_jobId_rq = uuid e\<rparr>]\<rparr>))"
  by (simp add: createJob_post_def jobPost_create_ok [OF assms] Let_def new_JobPost_def
      split: option.splits)

text \<open>
  C9, as stated, covers every \<open>listingDuration\<close> that passes validation, any number from 1
  on. The number \<open>2147483648\<close> passes validation and is the day count of no pricing tier, but
  it does not fit the 32-bit column: \<open>prisma.jobPost.create\<close> throws, no row is inserted and
  no event is sent.
\<close>

theorem createJob_out_of_range_duration_counterexample:
  "createJob ex_pricing ex_env (Some (ex_session ''u1'')) (ex_form 2147483648) ex_world
     = (Thrown ValueOutOfRange, ex_world)"
  by (simp add: createJob_def createJob_post_def jobSchema_parse_def ex_form_ok
        company_findUnique_userId_def ensure_stripe_customer_def jobPost_create_def
        ex_form_Int Let_def ex_defs ex_session_def)

text \<open>
  C9, amended. Let the store satisfy its integrity constraints, the caller be signed in
  and own a Company, the generated ids be new, and the form validate with numbers that
  pass as \<open>Int\<close> columns (integers of 32 bits) and a \<open>listingDuration\<close> that is the day count
  of no pricing tier. Then \<open>createJob\<close> throws "Invalid listing duration selected", and by
  then the posting has been inserted with status DRAFT and the \<open>job/created\<close> event for it
  has been sent: the state is not the one before the call, and no checkout session was
  requested for the posting.
\<close>

theorem createJob_unpriced_duration_leaves_draft:
  assumes "consistent w"
    and "c \<in> set (companies w)" and "userId_co c = id_su user" and "id_co c \<noteq> []"
    and "jobSchema_ok (isUrl e) data"
    and "uuid e \<notin> set (map id_jp (jobPosts w))"
    and "\<forall>u \<in> set (users w). id_us u = id_su user \<and>
            (stripeCustomerId u = None \<or> stripeCustomerId u = Some []) \<longrightarrow>
            stripe_customer e \<notin> set (List.map_filter stripeCustomerId (users w))"
    and "listingDuration_f data \<notin> set (map days jobListingPricing)"
    and "Int_columns data = None"
  shows "\<exists>w'. createJob jobListingPricing e (Some user) data w = (Thrown InvalidListingDuration, w')
           \<and> jobPosts w' = jobPosts w @ [new_JobPost e (id_co c) data]
           \<and> status (new_JobPost e (id_co c) data) = DRAFT
           \<and> inngest_sent w' = inngest_sent w @ [JobCreated (uuid e) (listingDuration_f data)]
           \<and> checkouts w' = checkouts w
           \<and> w' \<noteq> w"
proof -
  from createJob_reaches_post [OF assms(1-5) assms(7)]
  obtain cust w1 where run: "createJob jobListingPricing e (Some user) data w
                      = createJob_post jobListingPricing e (id_co c) cust data w1"
    and same: "companies w1 = companies w" "jobPosts w1 = jobPosts w"
      "inngest_sent w1 = inngest_sent w" "checkouts w1 = checkouts w"
    by blast
  have no_tier: "find (\<lambda>tier. days tier = listingDuration_f data) jobListingPricing = None"
    using assms(8) by (intro find_None_ball) force
  have c1: "c \<in> set (companies w1)" and f1: "uuid e \<notin> set (map id_jp (jobPosts w1))"
    using assms(2,6) same by simp_all
  let ?w' = "w1\<lparr>jobPosts := jobPosts w1 @ [new_JobPost e (id_co c) data],
                 inngest_sent := inngest_sent w1 @ [JobCreated (uuid e) (listingDuration_f data)]\<rparr>"
  have "createJob jobListingPricing e (Some user) data w = (Thrown InvalidListingDuration, ?w')"
    using run no_tier by (simp add: createJob_post_eq [OF f1 c1 assms(9)] Let_def)
  moreover have "jobPosts ?w' \<noteq> jobPosts w" using same by simp
  then have "?w' \<noteq> w" by metis
  ultimately show ?thesis
    using same by (intro exI [of _ ?w']) (simp add: new_JobPost_def)
qed

theorem createJob_unpriced_duration_leaves_draft_witness:
  "jobSchema_ok (isUrl ex_env) (ex_form 45)
   \<and> 45 \<notin> set (map days ex_pricing)
   \<and> (\<exists>w'. createJob ex_pricing ex_env (Some (ex_session ''u2'')) (ex_form 45) ex_world
               = (Thrown InvalidListingDuration, w')
         \<and> map id_jp (jobPosts w') = [''j1'', ''j2'', ''j3'', ''j4'', ''j9'']
         \<and> map status (jobPosts w') = [ACTIVE, ACTIVE, ACTIVE, DRAFT, DRAFT]
         \<and> inngest_sent w' = [JobCreated ''j9'' 45]
         \<and> checkouts w' = [])"
proof -
  have c: "ex_company2 \<in> set (companies ex_world)"
      "userId_co ex_company2 = id_su (ex_session ''u2'')" "id_co ex_company2 \<noteq> []"
    by (simp_all add: ex_defs ex_env_defs)
  have v: "jobSchema_ok (isUrl ex_env) (ex_form 45)"
    by (simp add: ex_form_ok)
  have f: "uuid ex_env \<notin> set (map id_jp (jobPosts ex_world))"
      "\<forall>u \<in> set (users ex_world). id_us u = id_su (ex_session ''u2'') \<and>
            (stripeCustomerId u = None \<or> stripeCustomerId u = Some []) \<longrightarrow>
            stripe_customer ex_env \<notin> set (List.map_filter stripeCustomerId (users ex_world))"
      "listingDuration_f (ex_form 45) \<notin> set (map days ex_pricing)"
    by (simp_all add: ex_defs ex_env_defs List.map_filter_simps)
  have i: "Int_columns (ex_form 45) = None"
    by (simp add: ex_form_Int)
  from createJob_unpriced_duration_leaves_draft [OF consistent_ex_world c v f i]
  obtain w' where w': "createJob ex_pricing ex_env (Some (ex_session ''u2'')) (ex_form 45) ex_world
               = (Thrown InvalidListingDuration, w')"
      "jobPosts w' = jobPosts ex_world @ [new_JobPost ex_env (id_co ex_company2) (ex_form 45)]"
      "inngest_sent w' = inngest_sent ex_world @
          [JobCreated (uuid ex_env) (listingDuration_f (ex_form 45))]"
      "checkouts w' = checkouts ex_world"
    by blast
  have "map id_jp (jobPosts w') = [''j1'', ''j2'', ''j3'', ''j4'', ''j9'']"
    "map status (jobPosts w') = [ACTIVE, ACTIVE, ACTIVE, DRAFT, DRAFT]"
    "inngest_sent w' = [JobCreated ''j9'' 45]" "checkouts w' = []"
    unfolding w'(2,3,4) by (simp_all add: ex_defs ex_env_defs new_JobPost_def)
  with w'(1) v f(3) show ?thesis by (simp add: ex_form_def)
qed

subsection \<open>The payment webhook\<close>

lemma POST_no_jobId:
  assumes "type_ev event = ''checkout.session.completed''"
    and "metadata_jobId (object_ev event) = None \<or> metadata_jobId (object_ev event) = Some []"
  shows "POST e (Some event) w = (Inr \<lparr>status_rs = 400, body_rs = Some ''no job id found''\<rparr>, w)"
  using assms by (auto simp add: POST_def Let_def)

lemma POST_no_user:
  assumes "type_ev event = ''checkout.session.completed''"
    and "metadata_jobId (object_ev event) = Some jobId" and "jobId \<noteq> []"
    and "customer (object_ev event) = Some customerId"
    and "\<not> (\<exists>u \<in> set (users w). stripeCustomerId u = Some customerId)"
  shows "POST e (Some event) w =
           (Inr \<lparr>status_rs = 400, body_rs = Some ''no company found for the user''\<rparr>, w)"
  using assms(1-4) find_None_ball [OF assms(5)] by (simp add: POST_def Let_def)

lemma POST_company:
  assumes "type_ev event = ''checkout.session.completed''"
    and "metadata_jobId (object_ev event) = Some jobId" and "jobId \<noteq> []"
    and "customer (object_ev event) = Some customerId"
    and "find (\<lambda>u. stripeCustomerId u = Some customerId) (users w) = Some u"
    and "find (\<lambda>c. userId_co c = id_us u) (companies w) = Some c"
  shows "POST e (Some event) w =
           (case jobPost_update (\<lambda>j. id_jp j = jobId \<and> companyId j = id_co c)
                   (\<lambda>j. j\<lparr>status := ACTIVE\<rparr>) (now e) (jobPosts w) of
              Inl err \<Rightarrow> (Inl err, w)
            | Inr rows \<Rightarrow> (Inr \<lparr>status_rs = 200, body_rs = None\<rparr>, w\<lparr>jobPosts := rows\<rparr>))"
  using assms by (simp add: POST_def Let_def)

text \<open>
  C2, as stated, promises a 200 response for every verified checkout-completed delivery
  that carries a job id and whose customer has a company. Here the customer \<open>cus_1\<close> owns a
  company and the delivery names the posting \<open>j0\<close>, which does not exist: the update throws
  "record not found" and the handler sends no 200.
\<close>

theorem POST_unmatched_job_counterexample:
  "POST ex_env (Some (ex_event (Some ''j0'') (Some ''cus_1''))) ex_world
     = (Inl RecordNotFound, ex_world)"
  by (simp add: POST_def Let_def jobPost_update_def ex_defs ex_env_defs)

text \<open>
  C2, amended. For every verified delivery of a checkout-completed event: if the \<open>jobId\<close>
  metadata is missing (or empty) the handler responds 400 "no job id found" and changes
  nothing; if the customer reference given matches no user (hence no Company) it responds
  400 "no company found for the user" and changes nothing; if it matches a user who owns a
  Company and a posting has both the correlation id and that company, exactly the postings
  with that id and company get status ACTIVE (and a fresh \<open>updatedAt\<close>) and the handler
  responds 200 with an empty body; and if no posting has both, the update throws "record not
  found", no 200 is sent and nothing changes.
\<close>

theorem POST_checkout_completed:
  assumes "type_ev event = ''checkout.session.completed''"
  shows "(metadata_jobId (object_ev event) = None \<or> metadata_jobId (object_ev event) = Some [] \<longrightarrow>
            POST e (Some event) w
              = (Inr \<lparr>status_rs = 400, body_rs = Some ''no job id found''\<rparr>, w))
       \<and> (\<forall>jobId customerId.
            metadata_jobId (object_ev event) = Some jobId \<and> jobId \<noteq> [] \<and>
            customer (object_ev event) = Some customerId \<longrightarrow>
            (\<not> (\<exists>u \<in> set (users w). stripeCustomerId u = Some customerId) \<longrightarrow>
               POST e (Some event) w
                 = (Inr \<lparr>status_rs = 400, body_rs = Some ''no company found for the user''\<rparr>, w))
            \<and> (\<forall>u c. find (\<lambda>u. stripeCustomerId u = Some customerId) (users w) = Some u \<and>
                     find (\<lambda>c. userId_co c = id_us u) (companies w) = Some c \<longrightarrow>
                 ((\<exists>j \<in> set (jobPosts w). id_jp j = jobId \<and> companyId j = id_co c) \<longrightarrow>
                    POST e (Some event) w
                      = (Inr \<lparr>status_rs = 200, body_rs = None\<rparr>,
                         w\<lparr>jobPosts :=
                              map (\<lambda>j. if id_jp j = jobId \<and> companyId j = id_co c
                                        then j\<lparr>status := ACTIVE, updatedAt := now e\<rparr> else j)
                                (jobPosts w)\<rparr>))
                 \<and> (\<not> (\<exists>j \<in> set (jobPosts w). id_jp j = jobId \<and> companyId j = id_co c) \<longrightarrow>
                    POST e (Some event) w = (Inl RecordNotFound, w))))"
proof (intro conjI allI impI; (elim conjE)?)
  assume "metadata_jobId (object_ev event) = None \<or> metadata_jobId (object_ev event) = Some []"
  then show "POST e (Some event) w
              = (Inr \<lparr>status_rs = 400, body_rs = Some ''no job id found''\<rparr>, w)"
    using assms by (intro POST_no_jobId)
next
  fix jobId customerId
  assume "metadata_jobId (object_ev event) = Some jobId" "jobId \<noteq> []"
    "customer (object_ev event) = Some customerId"
    "\<not> (\<exists>u \<in> set (users w). stripeCustomerId u = Some customerId)"
  then show "POST e (Some event) w
                 = (Inr \<lparr>status_rs = 400, body_rs = Some ''no company found for the user''\<rparr>, w)"
    using assms by (intro POST_no_user)
next
  fix jobId customerId u c
  assume a: "metadata_jobId (object_ev event) = Some jobId" "jobId \<noteq> []"
    "customer (object_ev event) = Some customerId"
    "find (\<lambda>u. stripeCustomerId u = Some customerId) (users w) = Some u"
    "find (\<lambda>c. userId_co c = id_us u) (companies w) = Some c"
  note P = POST_company [OF assms a, of e]
  {
    assume "\<exists>j \<in> set (jobPosts w). id_jp j = jobId \<and> companyId j = id_co c"
    then show "POST e (Some event) w
                      = (Inr \<lparr>status_rs = 200, body_rs = None\<rparr>,
                         w\<lparr>jobPosts :=
                              map (\<lambda>j. if id_jp j = jobId \<and> companyId j = id_co c
                                        then j\<lparr>status := ACTIVE, updatedAt := now e\<rparr> else j)
                                (jobPosts w)\<rparr>)"
      using P by (simp add: jobPost_update_some)
  }
  {
    assume "\<not> (\<exists>j \<in> set (jobPosts w). id_jp j = jobId \<and> companyId j = id_co c)"
    then show "POST e (Some event) w = (Inl RecordNotFound, w)"
      using P by (simp add: jobPost_update_none)
  }
qed

theorem POST_checkout_completed_witness:
  "POST ex_env (Some (ex_event None (Some ''cus_1''))) ex_world
     = (Inr \<lparr>status_rs = 400, body_rs = Some ''no job id found''\<rparr>, ex_world)
   \<and> POST ex_env (Some (ex_event (Some ''j4'') (Some ''cus_0''))) ex_world
     = (Inr \<lparr>status_rs = 400, body_rs = Some ''no company found for the user''\<rparr>, ex_world)
   \<and> POST ex_env (Some (ex_event (Some ''j4'') (Some ''cus_1''))) ex_world
     = (Inr \<lparr>status_rs = 200, body_rs = None\<rparr>,
        ex_world\<lparr>jobPosts :=
          [ex_job ''j1'' ''full-time'' ''Berlin'' ACTIVE 10,
           ex_job ''j2'' ''part-time'' ''Paris'' ACTIVE 20,
           ex_job ''j3'' ''full-time'' ''Berlin'' ACTIVE 30,
           (ex_job ''j4'' ''contract'' ''Berlin'' ACTIVE 40)\<lparr>updatedAt := 100\<rparr>]\<rparr>)
   \<and> POST ex_env (Some (ex_event (Some ''j5'') (Some ''cus_1''))) ex_world
     = (Inl RecordNotFound, ex_world)"
proof -
  have t: "type_ev (ex_event j c) = ''checkout.session.completed''" for j c
    by (simp add: ex_event_def)
  have fu: "find (\<lambda>u. stripeCustomerId u = Some ''cus_1'') (users ex_world) = Some ex_user"
    by (simp add: ex_defs)
  have fc: "find (\<lambda>c. userId_co c = id_us ex_user) (companies ex_world) = Some ex_company"
    by (simp add: ex_defs)
  have nu: "\<not> (\<exists>u \<in> set (users ex_world). stripeCustomerId u = Some ''cus_0'')"
    by (simp add: ex_defs)
  have ej: "\<exists>j \<in> set (jobPosts ex_world). id_jp j = ''j4'' \<and> companyId j = id_co ex_company"
    by (simp add: ex_defs)
  note W1 = POST_checkout_completed [OF t, of None "Some ''cus_1''" ex_env ex_world]
  note W2 = POST_checkout_completed [OF t, of "Some ''j4''" "Some ''cus_0''" ex_env ex_world]
  note W3 = POST_checkout_completed [OF t, of "Some ''j4''" "Some ''cus_1''" ex_env ex_world]
  have 1: "POST ex_env (Some (ex_event None (Some ''cus_1''))) ex_world
     = (Inr \<lparr>status_rs = 400, body_rs = Some ''no job id found''\<rparr>, ex_world)"
    using W1 by (simp add: ex_event_def)
  have 2: "POST ex_env (Some (ex_event (Some ''j4'') (Some ''cus_0''))) ex_world
     = (Inr \<lparr>status_rs = 400, body_rs = Some ''no company found for the user''\<rparr>, ex_world)"
    using W2 nu by (simp add: ex_event_def)
  have 3: "POST ex_env (Some (ex_event (Some ''j4'') (Some ''cus_1''))) ex_world
     = (Inr \<lparr>status_rs = 200, body_rs = None\<rparr>,
        ex_world\<lparr>jobPosts :=
                              map (\<lambda>j. if id_jp j = ''j4'' \<and> companyId j = id_co ex_company
                                        then j\<lparr>status := ACTIVE, updatedAt := now ex_env\<rparr> else j)
                                (jobPosts ex_world)\<rparr>)"
    using W3 fu fc ej by (simp add: ex_event_def)
  have 4: "map (\<lambda>j. if id_jp j = ''j4'' \<and> companyId j = id_co ex_company
                                        then j\<lparr>status := ACTIVE, updatedAt := now ex_env\<rparr> else j)
                                (jobPosts ex_world) =
          [ex_job ''j1'' ''full-time'' ''Berlin'' ACTIVE 10,
           ex_job ''j2'' ''part-time'' ''Paris'' ACTIVE 20,
           ex_job ''j3'' ''full-time'' ''Berlin'' ACTIVE 30,
           (ex_job ''j4'' ''contract'' ''Berlin'' ACTIVE 40)\<lparr>updatedAt := 100\<rparr>]"
    by (simp add: ex_defs ex_env_defs)
  have nj: "\<not> (\<exists>j \<in> set (jobPosts ex_world). id_jp j = ''j5'' \<and> companyId j = id_co ex_company)"
    by (simp add: ex_defs)
  have 5: "POST ex_env (Some (ex_event (Some ''j5'') (Some ''cus_1''))) ex_world
             = (Inl RecordNotFound, ex_world)"
    using POST_checkout_completed [OF t, of "Some ''j5''" "Some ''cus_1''" ex_env ex_world]
      fu fc nj by (simp add: ex_event_def)
  show ?thesis
    using 1 2 3 5 by (simp add: 4)
qed

text \<open>
  Outside the cases above: a customer reference that matches a user who owns no Company.
  The handler tests the user row, so it sends no 400; the \<open>companyId\<close> condition is
  dropped, and the posting with the correlation id is activated whichever company owns it.
  Here a third user with customer \<open>cus_3\<close> and no Company pays for the draft \<open>j4\<close> of the
  first employer.
\<close>

lemma POST_user_without_company_example:
  "fst (POST ex_env (Some (ex_event (Some ''j4'') (Some ''cus_3'')))
          (ex_world\<lparr>users := users ex_world @
             [\<lparr>id_us = ''u3'', name_us = None, email = None,
               stripeCustomerId = Some ''cus_3''\<rparr>]\<rparr>))
     = Inr \<lparr>status_rs = 200, body_rs = None\<rparr>
   \<and> map status (jobPosts (snd (POST ex_env (Some (ex_event (Some ''j4'') (Some ''cus_3'')))
          (ex_world\<lparr>users := users ex_world @
             [\<lparr>id_us = ''u3'', name_us = None, email = None,
               stripeCustomerId = Some ''cus_3''\<rparr>]\<rparr>))))
     = [ACTIVE, ACTIVE, ACTIVE, ACTIVE]"
  by (simp add: POST_def Let_def jobPost_update_def ex_defs ex_env_defs)

subsection \<open>Lifecycle of a posting\<close>

lemma owned_by_company:
  assumes "distinct (map id_co (companies w))" and "c \<in> set (companies w)"
    and "companyId j = id_co c"
  shows "owned_by w uid j \<longleftrightarrow> userId_co c = uid"
  using find_by_key [OF assms(1,2)] assms(3) by (simp add: owned_by_def)

lemma deleteJobPost_last_row:
  assumes allow: "\<not> isDenied e"
    and rows: "jobPosts w = rows @ [r]" "id_jp r = jobId" "jobId \<notin> set (map id_jp rows)"
    and own: "owned_by w (id_su user) r"
    and unsaved: "\<not> (\<exists>s \<in> set (savedJobPosts w). jobPostId s = jobId)"
  shows "deleteJobPost e (Some user) jobId w =
           (Redirected ''/my-jobs'',
            w\<lparr>jobPosts := rows, inngest_sent := inngest_sent w @ [JobCancelExpiration jobId]\<rparr>)"
proof -
  let ?m = "\<lambda>j. id_jp j = jobId \<and> owned_by w (id_su user) j"
  have "\<exists>j \<in> set (jobPosts w). ?m j" using rows own by auto
  from find_Some_bex [OF this]
  obtain j where j: "find ?m (jobPosts w) = Some j" "id_jp j = jobId" by blast
  have ns: "\<not> list_ex (\<lambda>s. jobPostId s = id_jp j) (savedJobPosts w)"
    using unsaved j(2) by (simp add: list_ex_iff)
  have "\<forall>x \<in> set rows. \<not> ?m x" using rows(3) by force
  then have "filter (\<lambda>x. \<not> ?m x) rows = rows" by (intro filter_all) simp
  then have "filter (\<lambda>x. \<not> ?m x) (jobPosts w) = rows"
    using rows own by simp
  then have "jobPost_delete ?m w = Inr (w\<lparr>jobPosts := rows\<rparr>)"
    using j(1) ns by (simp add: jobPost_delete_def)
  then show ?thesis
    using allow by (simp add: deleteJobPost_def)
qed

lemma createJob_succeeds:
  assumes cons: "consistent w" and c: "c \<in> set (companies w)" "userId_co c = id_su user"
      "id_co c \<noteq> []"
    and valid: "jobSchema_ok (isUrl e) data"
    and fresh_id: "uuid e \<notin> set (map id_jp (jobPosts w))"
    and fresh_cust: "\<forall>u \<in> set (users w). id_us u = id_su user \<and>
            (stripeCustomerId u = None \<or> stripeCustomerId u = Some []) \<longrightarrow>
            stripe_customer e \<notin> set (List.map_filter stripeCustomerId (users w))"
    and tier: "listingDuration_f data \<in> set (map days pricing)"
    and ints: "Int_columns data = None"
  shows "\<exists>w1 cust rq u1.
           createJob pricing e (Some user) data w = (Redirected (stripe_session_url e), w1)
         \<and> jobPosts w1 = jobPosts w @ [new_JobPost e (id_co c) data]
         \<and> inngest_sent w1 = inngest_sent w @ [JobCreated (uuid e) (listingDuration_f data)]
         \<and> checkouts w1 = checkouts w @ [rq]
         \<and> customer_rq rq = cust \<and> metadata_jobId_rq rq = uuid e
         \<and> companies w1 = companies w \<and> savedJobPosts w1 = savedJobPosts w
         \<and> find (\<lambda>x. stripeCustomerId x = Some cust) (users w1) = Some u1
         \<and> id_us u1 = id_su user"
proof -
  from createJob_reaches_post [OF cons c valid fresh_cust]
  obtain cust w0 u1 where run: "createJob pricing e (Some user) data w
                      = createJob_post pricing e (id_co c) cust data w0"
    and same: "companies w0 = companies w" "jobPosts w0 = jobPosts w"
      "savedJobPosts w0 = savedJobPosts w"
      "inngest_sent w0 = inngest_sent w" "checkouts w0 = checkouts w"
    and u1: "find (\<lambda>x. stripeCustomerId x = Some cust) (users w0) = Some u1"
      "id_us u1 = id_su user"
    by blast
  have "\<exists>t \<in> set pricing. days t = listingDuration_f data" using tier by auto
  from find_Some_bex [OF this]
  obtain t where t: "find (\<lambda>tier. days tier = listingDuration_f data) pricing = Some t" by blast
  have c0: "c \<in> set (companies w0)" and f0: "uuid e \<notin> set (map id_jp (jobPosts w0))"
    using c(1) fresh_id same by simp_all
  let ?rq = "\<lparr>customer_rq = cust, unit_amount = price t * 100,
              description_rq = description t, metadata_jobId_rq = uuid e\<rparr>"
  let ?w1 = "w0\<lparr>jobPosts := jobPosts w0 @ [new_JobPost e (id_co c) data],
                 inngest_sent := inngest_sent w0 @ [JobCreated (uuid e) (listingDuration_f data)],
                 checkouts := checkouts w0 @ [?rq]\<rparr>"
  have "createJob pricing e (Some user) data w = (Redirected (stripe_session_url e), ?w1)"
    using run t by (simp add: createJob_post_eq [OF f0 c0 ints] Let_def)
  then show ?thesis
    using same u1
    by (intro exI [of _ ?w1] exI [of _ cust] exI [of _ ?rq] exI [of _ u1]) simp
qed

text \<open>
  C6. Start from a store that satisfies its integrity constraints, with a signed-in owner
  of a Company, a valid form whose numbers pass as \<open>Int\<close> columns and whose
  \<open>listingDuration\<close> is the day count of a pricing tier, and new generated ids. Then
  \<open>createJob\<close> succeeds: it appends the posting with status DRAFT, sends \<open>job/created\<close> with
  the new id and \<open>expirationDays = listingDuration\<close>, and requests a checkout session
  carrying the new id. The checkout-completed webhook for that session (same job id, same
  customer) then responds 200 and turns exactly that posting ACTIVE. A following allowed
  \<open>deleteJobPost\<close> of the posting by the owner removes the row, restoring the table of
  postings, and sends \<open>job/cancel.expiration\<close> with the same id.
\<close>

theorem job_lifecycle_scenario:
  assumes cons: "consistent w0"
    and c: "c \<in> set (companies w0)" "userId_co c = id_su user" "id_co c \<noteq> []"
    and valid: "jobSchema_ok (isUrl e1) data"
    and fresh_id: "uuid e1 \<notin> set (map id_jp (jobPosts w0))" "uuid e1 \<noteq> []"
    and fresh_cust: "\<forall>u \<in> set (users w0). id_us u = id_su user \<and>
            (stripeCustomerId u = None \<or> stripeCustomerId u = Some []) \<longrightarrow>
            stripe_customer e1 \<notin> set (List.map_filter stripeCustomerId (users w0))"
    and tier: "listingDuration_f data \<in> set (map days jobListingPricing)"
    and ints: "Int_columns data = None"
    and allow: "\<not> isDenied e3"
  shows "\<exists>w1 w2 w3 rq.
           createJob jobListingPricing e1 (Some user) data w0
             = (Redirected (stripe_session_url e1), w1)
         \<and> jobPosts w1 = jobPosts w0 @ [new_JobPost e1 (id_co c) data]
         \<and> status (new_JobPost e1 (id_co c) data) = DRAFT
         \<and> inngest_sent w1 = inngest_sent w0 @ [JobCreated (uuid e1) (listingDuration_f data)]
         \<and> checkouts w1 = checkouts w0 @ [rq] \<and> metadata_jobId_rq rq = uuid e1
         \<and> POST e2 (Some \<lparr>type_ev = ''checkout.session.completed'',
                           object_ev = \<lparr>customer = Some (customer_rq rq),
                                        metadata_jobId = Some (uuid e1)\<rparr>\<rparr>) w1
             = (Inr \<lparr>status_rs = 200, body_rs = None\<rparr>, w2)
         \<and> jobPosts w2 = jobPosts w0 @
               [(new_JobPost e1 (id_co c) data)\<lparr>status := ACTIVE, updatedAt := now e2\<rparr>]
         \<and> deleteJobPost e3 (Some user) (uuid e1) w2 = (Redirected ''/my-jobs'', w3)
         \<and> jobPosts w3 = jobPosts w0
         \<and> inngest_sent w3 = inngest_sent w0 @
               [JobCreated (uuid e1) (listingDuration_f data), JobCancelExpiration (uuid e1)]"
proof -
  let ?jid = "uuid e1"
  let ?row = "new_JobPost e1 (id_co c) data"
  let ?row' = "?row\<lparr>status := ACTIVE, updatedAt := now e2\<rparr>"
  from createJob_succeeds [OF cons c valid fresh_id(1) fresh_cust tier ints]
  obtain w1 cust rq u1 where
    s1: "createJob jobListingPricing e1 (Some user) data w0 = (Redirected (stripe_session_url e1), w1)"
    and j1: "jobPosts w1 = jobPosts w0 @ [?row]"
    and i1: "inngest_sent w1 = inngest_sent w0 @ [JobCreated ?jid (listingDuration_f data)]"
    and k1: "checkouts w1 = checkouts w0 @ [rq]" "customer_rq rq = cust"
      "metadata_jobId_rq rq = ?jid"
    and same1: "companies w1 = companies w0" "savedJobPosts w1 = savedJobPosts w0"
    and u1: "find (\<lambda>x. stripeCustomerId x = Some cust) (users w1) = Some u1" "id_us u1 = id_su user"
    by blast
  have dco: "distinct (map id_co (companies w0))" and dus: "distinct (map userId_co (companies w0))"
    using cons by (simp_all add: consistent_def)
  have others: "\<forall>j \<in> set (jobPosts w0). \<not> (id_jp j = ?jid \<and> companyId j = id_co c)"
    using fresh_id(1) by force
  \<comment> \<open>the payment notification\<close>
  let ?event = "\<lparr>type_ev = ''checkout.session.completed'',
                 object_ev = \<lparr>customer = Some (customer_rq rq), metadata_jobId = Some ?jid\<rparr>\<rparr>"
  have fc: "find (\<lambda>x. userId_co x = id_us u1) (companies w1) = Some c"
    using find_by_key [OF dus c(1)] c(2) u1(2) same1 by simp
  have upd: "jobPost_update (\<lambda>j. id_jp j = ?jid \<and> companyId j = id_co c)
               (\<lambda>j. j\<lparr>status := ACTIVE\<rparr>) (now e2) (jobPosts w1) = Inr (jobPosts w0 @ [?row'])"
    using j1 by (subst jobPost_update_some) (simp_all add: map_if_none [OF others] new_JobPost_def)
  let ?w2 = "w1\<lparr>jobPosts := jobPosts w0 @ [?row']\<rparr>"
  have s2: "POST e2 (Some ?event) w1 = (Inr \<lparr>status_rs = 200, body_rs = None\<rparr>, ?w2)"
    using POST_company [of ?event ?jid cust w1 u1 c e2] fresh_id(2) k1(2) u1(1) fc upd
    by simp
  \<comment> \<open>the deletion by the owner\<close>
  have own: "owned_by ?w2 (id_su user) ?row'"
    using owned_by_company [of ?w2 c ?row' "id_su user"] dco c(1,2) same1
    by (simp add: new_JobPost_def)
  have "\<forall>s \<in> set (savedJobPosts w0). jobPostId s \<in> set (map id_jp (jobPosts w0))"
    using cons by (simp add: consistent_def list_all_iff)
  then have unsaved: "\<not> (\<exists>s \<in> set (savedJobPosts ?w2). jobPostId s = ?jid)"
    using fresh_id(1) same1 by (simp del: set_map) metis
  have s3: "deleteJobPost e3 (Some user) ?jid ?w2 =
              (Redirected ''/my-jobs'',
               ?w2\<lparr>jobPosts := jobPosts w0,
                    inngest_sent := inngest_sent ?w2 @ [JobCancelExpiration ?jid]\<rparr>)"
    using fresh_id(1) by (intro deleteJobPost_last_row [OF allow _ _ _ own unsaved])
      (simp_all add: new_JobPost_def)
  show ?thesis
    using s1 j1 i1 k1 s2 s3
    by (intro exI [of _ w1] exI [of _ ?w2] exI [of _ rq]
          exI [of _ "?w2\<lparr>jobPosts := jobPosts w0,
                    inngest_sent := inngest_sent ?w2 @ [JobCancelExpiration ?jid]\<rparr>"])
       (simp add: new_JobPost_def)
qed

theorem job_lifecycle_scenario_witness:
  "\<exists>w1 w2 w3.
     createJob ex_pricing ex_env (Some (ex_session ''u2'')) (ex_form 30) ex_world
       = (Redirected ''https://checkout.example/s1'', w1)
   \<and> map id_jp (jobPosts w1) = [''j1'', ''j2'', ''j3'', ''j4'', ''j9'']
   \<and> map status (jobPosts w1) = [ACTIVE, ACTIVE, ACTIVE, DRAFT, DRAFT]
   \<and> inngest_sent w1 = [JobCreated ''j9'' 30]
   \<and> POST (ex_env\<lparr>now := 200\<rparr>) (Some (ex_event (Some ''j9'') (Some ''cus_9''))) w1
       = (Inr \<lparr>status_rs = 200, body_rs = None\<rparr>, w2)
   \<and> map status (jobPosts w2) = [ACTIVE, ACTIVE, ACTIVE, DRAFT, ACTIVE]
   \<and> deleteJobPost (ex_env\<lparr>now := 300\<rparr>) (Some (ex_session ''u2'')) ''j9'' w2
       = (Redirected ''/my-jobs'', w3)
   \<and> jobPosts w3 = jobPosts ex_world
   \<and> inngest_sent w3 = [JobCreated ''j9'' 30, JobCancelExpiration ''j9'']"
proof -
  have c: "ex_company2 \<in> set (companies ex_world)"
      "userId_co ex_company2 = id_su (ex_session ''u2'')" "id_co ex_company2 \<noteq> []"
    by (simp_all add: ex_defs ex_env_defs)
  have v: "jobSchema_ok (isUrl ex_env) (ex_form 30)"
    by (simp add: ex_form_ok)
  have f: "uuid ex_env \<notin> set (map id_jp (jobPosts ex_world))" "uuid ex_env \<noteq> []"
      "\<forall>u \<in> set (users ex_world). id_us u = id_su (ex_session ''u2'') \<and>
            (stripeCustomerId u = None \<or> stripeCustomerId u = Some []) \<longrightarrow>
            stripe_customer ex_env \<notin> set (List.map_filter stripeCustomerId (users ex_world))"
      "listingDuration_f (ex_form 30) \<in> set (map days ex_pricing)"
      "Int_columns (ex_form 30) = None"
      "\<not> isDenied (ex_env\<lparr>now := 300\<rparr>)"
    by (simp_all add: ex_form_Int) (simp_all add: ex_defs ex_env_defs List.map_filter_simps)
  from job_lifecycle_scenario [OF consistent_ex_world c v f, of "ex_env\<lparr>now := 200\<rparr>"]
  obtain w1 w2 w3 rq where
    s: "createJob ex_pricing ex_env (Some (ex_session ''u2'')) (ex_form 30) ex_world
             = (Redirected (stripe_session_url ex_env), w1)"
       "jobPosts w1 = jobPosts ex_world @ [new_JobPost ex_env (id_co ex_company2) (ex_form 30)]"
       "inngest_sent w1 = inngest_sent ex_world @
           [JobCreated (uuid ex_env) (listingDuration_f (ex_form 30))]"
       "checkouts w1 = checkouts ex_world @ [rq]"
       "POST (ex_env\<lparr>now := 200\<rparr>) (Some \<lparr>type_ev = ''checkout.session.completed'',
                           object_ev = \<lparr>customer = Some (customer_rq rq),
                                        metadata_jobId = Some (uuid ex_env)\<rparr>\<rparr>) w1
             = (Inr \<lparr>status_rs = 200, body_rs = None\<rparr>, w2)"
       "jobPosts w2 = jobPosts ex_world @
               [(new_JobPost ex_env (id_co ex_company2) (ex_form 30))
                  \<lparr>status := ACTIVE, updatedAt := now (ex_env\<lparr>now := 200\<rparr>)\<rparr>]"
       "deleteJobPost (ex_env\<lparr>now := 300\<rparr>) (Some (ex_session ''u2'')) (uuid ex_env) w2
          = (Redirected ''/my-jobs'', w3)"
       "jobPosts w3 = jobPosts ex_world"
       "inngest_sent w3 = inngest_sent ex_world @
               [JobCreated (uuid ex_env) (listingDuration_f (ex_form 30)),
                JobCancelExpiration (uuid ex_env)]"
    by blast
  have run: "createJob ex_pricing ex_env (Some (ex_session ''u2'')) (ex_form 30) ex_world
              = (Redirected ''https://checkout.example/s1'', w1)"
    using s(1) by (simp add: ex_env_def)
  have "checkouts (snd (createJob ex_pricing ex_env (Some (ex_session ''u2'')) (ex_form 30) ex_world))
          = [\<lparr>customer_rq = ''cus_9'', unit_amount = 9900, description_rq = ''Standard'',
               metadata_jobId_rq = ''j9''\<rparr>]"
    by (simp add: createJob_def createJob_post_def jobSchema_parse_def jobSchema_ok_def
          Int_columns_def new_JobPost_def company_findUnique_userId_def ensure_stripe_customer_def
          user_update_stripeCustomerId_def jobPost_create_def Let_def
          ex_defs ex_env_def ex_session_def ex_pricing_def ex_form_def)
  with run s(4) have rq: "customer_rq rq = ''cus_9''" by (simp add: ex_defs)
  have ev: "\<lparr>type_ev = ''checkout.session.completed'',
             object_ev = \<lparr>customer = Some (customer_rq rq),
                          metadata_jobId = Some (uuid ex_env)\<rparr>\<rparr>
            = ex_event (Some ''j9'') (Some ''cus_9'')"
    by (simp add: rq ex_event_def ex_env_def)
  have "map id_jp (jobPosts w1) = [''j1'', ''j2'', ''j3'', ''j4'', ''j9'']"
    "map status (jobPosts w1) = [ACTIVE, ACTIVE, ACTIVE, DRAFT, DRAFT]"
    "inngest_sent w1 = [JobCreated ''j9'' 30]"
    "map status (jobPosts w2) = [ACTIVE, ACTIVE, ACTIVE, DRAFT, ACTIVE]"
    "inngest_sent w3 = [JobCreated ''j9'' 30, JobCancelExpiration ''j9'']"
    unfolding s(2,3,6,9) by (simp_all add: ex_defs ex_env_defs new_JobPost_def)
  moreover have "deleteJobPost (ex_env\<lparr>now := 300\<rparr>) (Some (ex_session ''u2'')) ''j9'' w2
          = (Redirected ''/my-jobs'', w3)"
    using s(7) by (simp add: ex_env_def)
  ultimately show ?thesis
    using run s(5,8) unfolding ev
    by (intro exI [of _ w1] exI [of _ w2] exI [of _ w3] conjI) assumption+
qed

end
